theory Spec2Isabelle
  imports Main
begin

section \<open>Text: characters, case mapping and substring tests\<close>

text \<open>
  A Python character is modelled by a \<^typ>\<open>char\<close> read as a code point below 256
  (Latin-1), which covers every character the classifier's patterns mention
  (\<open>0xD3\<close> and \<open>0xF3\<close> are the accented O, \<open>0xC1\<close>/\<open>0xE1\<close> the accented A,
  \<open>0xDA\<close>/\<open>0xFA\<close> the accented U).
\<close>

definition code :: "char \<Rightarrow> nat" where
  "code c = of_char c"

definition chr_of :: "nat \<Rightarrow> char" where
  "chr_of n = char_of n"

text \<open>\<open>str.upper()\<close>: ASCII and Latin-1 letters; the sharp s becomes \<open>SS\<close>.  The two
  Latin-1 letters whose capital lies above 255 (\<open>0xB5\<close>, \<open>0xFF\<close>) are left as they are.\<close>

definition upper_char :: "char \<Rightarrow> string" where
  "upper_char c =
     (let n = code c in
      if 97 \<le> n \<and> n \<le> 122 then [chr_of (n - 32)]
      else if n = 223 then ''SS''
      else if 224 \<le> n \<and> n \<le> 254 \<and> n \<noteq> 247 then [chr_of (n - 32)]
      else [c])"

definition upper :: "string \<Rightarrow> string" where
  "upper s = concat (map upper_char s)"

text \<open>The lower-case form that \<open>re.IGNORECASE\<close> compares.\<close>

definition lower_char :: "char \<Rightarrow> char" where
  "lower_char c =
     (let n = code c in
      if 65 \<le> n \<and> n \<le> 90 then chr_of (n + 32)
      else if 192 \<le> n \<and> n \<le> 222 \<and> n \<noteq> 215 then chr_of (n + 32)
      else c)"

text \<open>The classes \<open>\d\<close>, \<open>\s\<close> and \<open>\w\<close> of a \<open>str\<close> pattern.\<close>

definition is_digit :: "char \<Rightarrow> bool" where
  "is_digit c = (48 \<le> code c \<and> code c \<le> 57)"

definition is_space :: "char \<Rightarrow> bool" where
  "is_space c =
     (let n = code c in
      (9 \<le> n \<and> n \<le> 13) \<or> (28 \<le> n \<and> n \<le> 32) \<or> n = 133 \<or> n = 160)"

definition is_word :: "char \<Rightarrow> bool" where
  "is_word c =
     (let n = code c in
      (48 \<le> n \<and> n \<le> 57) \<or> (65 \<le> n \<and> n \<le> 90) \<or> (97 \<le> n \<and> n \<le> 122) \<or> n = 95
      \<or> n = 170 \<or> n = 178 \<or> n = 179 \<or> n = 181 \<or> n = 185 \<or> n = 186
      \<or> (188 \<le> n \<and> n \<le> 190) \<or> (192 \<le> n \<and> n \<le> 214) \<or> (216 \<le> n \<and> n \<le> 246)
      \<or> (248 \<le> n \<and> n \<le> 255))"

text \<open>\<open>sub in s\<close> and \<open>s.endswith(suf)\<close>.\<close>

fun starts_with :: "string \<Rightarrow> string \<Rightarrow> bool" where
  "starts_with s [] = True"
| "starts_with [] (p # ps) = False"
| "starts_with (c # cs) (p # ps) = (c = p \<and> starts_with cs ps)"

fun contains :: "string \<Rightarrow> string \<Rightarrow> bool" where
  "contains [] sub = starts_with [] sub"
| "contains (c # cs) sub = (starts_with (c # cs) sub \<or> contains cs sub)"

definition endswith :: "string \<Rightarrow> string \<Rightarrow> bool" where
  "endswith s suf = starts_with (rev s) (rev suf)"

section \<open>Regular expressions\<close>

text \<open>
  The fragment of Python's \<open>re\<close> syntax that the pattern tables use.  A repetition is
  always applied to a single-character item there (\<open>\s+\<close>, \<open>\d+\<close>, \<open>.*\<close>, \<open>.{0,20}\<close>).
\<close>

datatype atom =
    Lit char            \<comment> \<open>a literal, compared case-insensitively\<close>
  | OneOf "char list"   \<comment> \<open>\<open>[...]\<close>, case-insensitively\<close>
  | Digit               \<comment> \<open>\<open>\d\<close>\<close>
  | Space               \<comment> \<open>\<open>\s\<close>\<close>
  | Dot                 \<comment> \<open>\<open>.\<close>: anything but a newline\<close>

datatype rx =
    Eps
  | One atom
  | Rep atom nat "nat option"   \<comment> \<open>greedy repetition, at least and at most\<close>
  | WordB                       \<comment> \<open>\<open>\b\<close>\<close>
  | NoWordAhead                 \<comment> \<open>\<open>(?!\w)\<close>\<close>
  | Cat rx rx
  | Alt rx rx

fun atom_ok :: "atom \<Rightarrow> char \<Rightarrow> bool" where
  "atom_ok (Lit p) c = (lower_char c = lower_char p)"
| "atom_ok (OneOf ps) c = (lower_char c \<in> set (map lower_char ps))"
| "atom_ok Digit c = is_digit c"
| "atom_ok Space c = is_space c"
| "atom_ok Dot c = (code c \<noteq> 10)"

text \<open>A position in the text: the character before it, if any, and the rest.\<close>

type_synonym pos = "char option \<times> string"

definition word_before :: "pos \<Rightarrow> bool" where
  "word_before p = (case fst p of None \<Rightarrow> False | Some c \<Rightarrow> is_word c)"

definition word_after :: "pos \<Rightarrow> bool" where
  "word_after p = (case snd p of [] \<Rightarrow> False | c # _ \<Rightarrow> is_word c)"

text \<open>The positions reached by consuming 0, 1, 2, ... characters that satisfy the atom.\<close>

fun runs :: "atom \<Rightarrow> pos \<Rightarrow> pos list" where
  "runs a (p, []) = [(p, [])]"
| "runs a (p, c # cs) =
     (if atom_ok a c then (p, c # cs) # runs a (Some c, cs) else [(p, c # cs)])"

text \<open>The positions at which a match starting at the given position can end, in the
  order in which the backtracking matcher tries them (greedy repetitions first).\<close>

fun ends :: "rx \<Rightarrow> pos \<Rightarrow> pos list" where
  "ends Eps st = [st]"
| "ends (One a) st =
     (case snd st of [] \<Rightarrow> []
      | c # cs \<Rightarrow> if atom_ok a c then [(Some c, cs)] else [])"
| "ends (Rep a lo hi) st =
     rev (drop lo (case hi of None \<Rightarrow> runs a st | Some h \<Rightarrow> take (Suc h) (runs a st)))"
| "ends WordB st = (if word_before st \<noteq> word_after st then [st] else [])"
| "ends NoWordAhead st = (if word_after st then [] else [st])"
| "ends (Cat r1 r2) st = concat (map (ends r2) (ends r1 st))"
| "ends (Alt r1 r2) st = ends r1 st @ ends r2 st"

text \<open>\<open>re.search\<close>: the leftmost position at which the pattern matches.\<close>

fun search_from :: "rx \<Rightarrow> char option \<Rightarrow> string \<Rightarrow> pos list" where
  "search_from r p [] = ends r (p, [])"
| "search_from r p (c # cs) =
     (case ends r (p, c # cs) of [] \<Rightarrow> search_from r (Some c) cs | e # es \<Rightarrow> e # es)"

definition re_search :: "rx \<Rightarrow> string \<Rightarrow> bool" where
  "re_search r s = (search_from r None s \<noteq> [])"

text \<open>\<open>re.search(prefix + '(\d+)', s).group(1)\<close>, or \<open>None\<close> without a match: the digits
  after the first end of the prefix that is followed by a digit.\<close>

fun first_digits :: "pos list \<Rightarrow> string option" where
  "first_digits [] = None"
| "first_digits (st # sts) =
     (case takeWhile is_digit (snd st) of [] \<Rightarrow> first_digits sts | d # ds \<Rightarrow> Some (d # ds))"

fun group_from :: "rx \<Rightarrow> char option \<Rightarrow> string \<Rightarrow> string option" where
  "group_from r p [] = first_digits (ends r (p, []))"
| "group_from r p (c # cs) =
     (case first_digits (ends r (p, c # cs)) of
        None \<Rightarrow> group_from r (Some c) cs
      | Some g \<Rightarrow> Some g)"

definition search_group :: "rx \<Rightarrow> string \<Rightarrow> string option" where
  "search_group prefix s = group_from prefix None s"

text \<open>A run of literal characters.\<close>

fun lits :: "string \<Rightarrow> rx" where
  "lits [] = Eps"
| "lits (c # cs) = Cat (One (Lit c)) (lits cs)"

fun cats :: "rx list \<Rightarrow> rx" where
  "cats [] = Eps"
| "cats (r # rs) = Cat r (cats rs)"

section \<open>The pattern tables of \<open>setup_patterns\<close>\<close>

definition o_lower :: rx where
  "o_lower = One (OneOf [CHR 0xF3, CHR ''o''])"

definition o_upper :: rx where
  "o_upper = One (OneOf [CHR ''O'', CHR 0xD3])"

definition spaces1 :: rx where
  "spaces1 = Rep Space 1 None"

definition digits1 :: rx where
  "digits1 = Rep Digit 1 None"

definition any_star :: rx where
  "any_star = Rep Dot 0 None"

definition cotizacion_asunto_patterns :: "rx list" where
  "cotizacion_asunto_patterns =
    [cats [WordB, lits ''COTIZACI'', o_upper, lits ''N'', WordB],
     cats [WordB, lits ''COT.'', WordB],
     cats [WordB, lits ''COT'', WordB, NoWordAhead],
     cats [WordB, lits ''COT RESIDENCIAL'', WordB],
     cats [WordB, lits ''APOYO COTIZACION'', WordB],
     cats [WordB, lits ''AGENTE'', spaces1, digits1],
     cats [WordB, lits ''AG'', spaces1, digits1]]"

definition cotizacion_cuerpo_patterns :: "rx list" where
  "cotizacion_cuerpo_patterns =
    [lits ''solicito su apoyo cotizando'',
     lits ''apoyo para cotizar'',
     cats [lits ''solicitud de cotizaci'', o_lower, lits ''n''],
     cats [WordB, lits ''AGENTE'', spaces1, digits1]]"

definition renovacion_asunto_patterns :: "rx list" where
  "renovacion_asunto_patterns =
    [cats [WordB, lits ''RENOVACI'', o_upper, lits ''N'', WordB],
     cats [WordB, lits ''RENOVAR'', WordB],
     cats [WordB, lits ''RENOVACIONES'', WordB],
     cats [WordB, lits ''REHABILITACI'', o_upper, lits ''N'', WordB],
     cats [WordB, lits ''PR'', o_upper, lits ''RROGA'', WordB],
     cats [WordB, lits ''RV'', WordB],
     cats [WordB, lits ''RENOV'', WordB],
     cats [WordB, lits ''COTI RENOVACI'', o_upper, lits ''N'', WordB]]"

definition renovacion_cuerpo_patterns :: "rx list" where
  "renovacion_cuerpo_patterns =
    [cats [lits ''vigencia pr'', o_lower, lits ''xima a vencer''],
     cats [lits ''solicito renovaci'', o_lower, lits ''n''],
     cats [lits ''renovar p'', o_lower, lits ''liza''],
     cats [lits ''dar continuidad a la p'', o_lower, lits ''liza''],
     cats [lits ''pr'', o_lower, lits ''rroga de la vigencia''],
     cats [lits ''rehabilitaci'', o_lower, lits ''n de p'', o_lower, lits ''liza''],
     cats [lits ''continuidad de p'', o_lower, lits ''liza''],
     cats [lits ''renovar p'', o_lower, lits ''liza '', digits1]]"

definition endoso_asunto_patterns :: "rx list" where
  "endoso_asunto_patterns =
    [cats [WordB, lits ''ENDOSO'', WordB],
     cats [WordB, lits ''ENDOSOS'', WordB],
     cats [WordB, lits ''ENDOSAR'', WordB],
     cats [WordB, lits ''ENDORSEMENT'', WordB],
     cats [WordB, lits ''ENDOSO '', One (OneOf ''AB''), WordB],
     cats [WordB, lits ''ENDOSO DE BP'', WordB],
     cats [WordB, lits ''ENDOSO ESPECIAL'', WordB],
     cats [WordB, lits ''ENDOSO'', any_star, lits ''MODIFICACI'', o_upper, lits ''N'', WordB],
     cats [WordB, lits ''MODIFICACI'', o_upper, lits ''N'', any_star, lits ''ENDOSO'', WordB],
     cats [WordB, lits ''INCISO '', digits1, WordB],
     cats [lits ''CORRECCI'', o_upper, lits ''N DE DATO''],
     lits ''CAMBIO DE COBERTURA'',
     lits ''INCREMENTO DE SUMA ASEGURADA'',
     cats [WordB, lits ''OT-'', digits1],
     cats [lits ''DOCUMENTO '', digits1],
     cats [lits ''MODIFICACI'', o_upper, lits ''N'', any_star, lits ''NO'', spaces1, lits ''OT''],
     cats [lits ''ENDOSO'', any_star, lits ''('', any_star,
           Alt (cats [lits ''MODIFICACI'', o_upper, lits ''N''])
               (Alt (lits ''CAMBIO'') (cats [lits ''CORRECCI'', o_upper, lits ''N''])),
           any_star, lits '')'']]"

definition endoso_cuerpo_patterns :: "rx list" where
  "endoso_cuerpo_patterns =
    [cats [lits ''correcci'', o_lower, lits ''n de dato''],
     lits ''modificar inciso'',
     cats [lits ''incluir'', Rep Dot 0 (Some 20), lits ''beneficiario''],
     cats [lits ''excluir'', Rep Dot 0 (Some 20), lits ''beneficiario''],
     lits ''cambiar suma asegurada'',
     cats [lits ''actualizaci'', o_lower, lits ''n de cobertura''],
     cats [lits ''actualizaci'', o_lower, lits ''n de beneficios''],
     cats [lits ''incorporaci'', o_lower, lits ''n de cl'', One (OneOf [CHR 0xE1, CHR ''a'']),
           lits ''usulas'']]"

text \<open>The loops \<open>for pattern in patterns: if re.search(...): ...; break\<close>.\<close>

fun any_search :: "rx list \<Rightarrow> string \<Rightarrow> bool" where
  "any_search [] s = False"
| "any_search (r # rs) s = (if re_search r s then True else any_search rs s)"

text \<open>The loops of \<open>extract_agente_code\<close> and \<open>extract_poliza_number\<close>: each pattern is
  given by what stands before its group \<open>(\d+)\<close>; the first pattern that matches returns
  its group, and the empty string is returned when none does.\<close>

fun first_group :: "rx list \<Rightarrow> string \<Rightarrow> string" where
  "first_group [] s = []"
| "first_group (r # rs) s =
     (case search_group r s of Some g \<Rightarrow> g | None \<Rightarrow> first_group rs s)"

definition extract_agente_code :: "string \<Rightarrow> string" where
  "extract_agente_code text =
     first_group [cats [WordB, lits ''AGENTE'', spaces1],
                  cats [WordB, lits ''AG'', spaces1]] text"

definition extract_poliza_number :: "string \<Rightarrow> string" where
  "extract_poliza_number text =
     first_group [cats [WordB, lits ''p'', o_lower, lits ''liza'', spaces1],
                  cats [WordB, lits ''P'', One (OneOf [CHR 0xD3, CHR ''O'']), lits ''LIZA'', spaces1],
                  cats [WordB, lits ''OT'', spaces1],
                  cats [WordB, lits ''N'', One (OneOf [CHR 0xDA, CHR ''U'']), lits ''MERO'', spaces1]]
       text"

text \<open>Python's \<open>a or b\<close> on strings.\<close>

definition str_or :: "string \<Rightarrow> string \<Rightarrow> string" where
  "str_or a b = (if a \<noteq> [] then a else b)"

section \<open>The classifier's data\<close>

datatype py_exn = AttributeError | TypeError | OSError | JSONDecodeError | KeyboardInterrupt

text \<open>What a function that may return an \<open>{'error': ...}\<close> dictionary, return a result or
  let an exception escape does.\<close>

datatype 'a reply = Raised py_exn | Error string | Result 'a

text \<open>A value read back from a JSON object: the key may be missing, \<open>null\<close> or a string.\<close>

datatype jstr = JAbsent | JNull | JStr string

record att_entry =
  filename :: string
  att_size :: nat
  path :: string

text \<open>The metadata record of a message, without its sender and time fields.\<close>

record metadata =
  md_id :: string
  folder :: string
  subject :: jstr
  eml_file :: "string option"
  attachments :: "att_entry list"
  plain_text_length :: nat
  html_content_length :: nat

record email_content =
  plain_text :: string
  html_content :: string
  combined_text :: string

record attachment_info =
  has_slip :: bool
  slip_complete :: bool
  slip_files :: "string list"
  pdf_cotizacion :: "string list"
  pdf_poliza :: "string list"
  pdf_renovacion :: "string list"
  pdf_endoso :: "string list"
  excel_files :: "string list"
  total_attachments :: nat

text \<open>The three result dictionaries share \<open>confidence\<close>, \<open>criteria_met\<close>, \<open>client_name\<close> and
  \<open>status\<close>; their \<open>details\<close> entry, a copy of parts of the attachment analysis, is left out.\<close>

record verdict =
  confidence :: int
  criteria_met :: "string list"
  client_name :: string
  status :: string

record cotizacion_class = verdict +
  is_cotizacion :: bool
  agente_code :: string

record poliza_class = verdict +
  poliza_number :: string

record renovacion_class = poliza_class +
  is_renovacion :: bool

record endoso_class = poliza_class +
  is_endoso :: bool
  endoso_type :: string

text \<open>\<open>metadata.get('subject', '').upper()\<close>: a missing key gives the default, a \<open>null\<close>
  subject is \<open>None\<close>, which has no \<open>upper\<close>.\<close>

definition subject_upper :: "metadata \<Rightarrow> py_exn + string" where
  "subject_upper md =
     (case subject md of
        JAbsent \<Rightarrow> Inr (upper [])
      | JNull \<Rightarrow> Inl AttributeError
      | JStr s \<Rightarrow> Inr (upper s))"

text \<open>\<open>any(word in s for word in words)\<close>.\<close>

definition any_in :: "string list \<Rightarrow> string \<Rightarrow> bool" where
  "any_in words s = list_ex (contains s) words"

section \<open>The three evaluators\<close>

text \<open>
  Each evaluator reads the upper-cased subject (\<open>asunto\<close>) and body (\<open>cuerpo\<close>), tests its
  criteria in a fixed order, adds up \<open>score\<close> and returns \<open>min(100, score)\<close> as the
  confidence.  The outcome of each test is named once; the running \<open>score\<close>, the list
  \<open>criteria_met\<close> and the status are functions of these outcomes, with the criteria in the
  order of the source.
\<close>

subsection \<open>\<open>classify_cotizacion\<close>\<close>

definition cotizacion_score :: "bool \<Rightarrow> bool \<Rightarrow> bool \<Rightarrow> attachment_info \<Rightarrow> int" where
  "cotizacion_score ca1 ca2 ca3 ai =
       (if ca1 then 30 else 0)
     + (if ca2 then 20 else 0)
     + (if ca3 then 15 else 0)
     + (if has_slip ai then 25 + (if slip_complete ai then 15 else 0) else 0)
     + (if pdf_cotizacion ai \<noteq> [] then 20 else 0)
     - (if pdf_poliza ai \<noteq> [] then 15 else 0)"

definition cotizacion_criteria :: "bool \<Rightarrow> bool \<Rightarrow> bool \<Rightarrow> attachment_info \<Rightarrow> string list" where
  "cotizacion_criteria ca1 ca2 ca3 ai =
       (if ca1 then [''CA1: Palabra clave en asunto''] else [])
     @ (if ca2 then [''CA2: C'' @ [CHR 0xF3] @ ''digo de agente detectado''] else [])
     @ (if ca3 then [''CA3: Palabra clave en cuerpo del email''] else [])
     @ (if has_slip ai
        then [''CA4: Archivo SLIP detectado'',
              (if slip_complete ai then ''CA5: SLIP completo''
               else ''CA5: SLIP vac'' @ [CHR 0xED] @ ''o o incompleto'')]
        else [])
     @ (if pdf_cotizacion ai \<noteq> []
        then [''CA6: PDF de cotizaci'' @ [CHR 0xF3] @ ''n presente''] else [])
     @ (if pdf_poliza ai \<noteq> []
        then [''CA7/CA10: Contiene documentos de p'' @ [CHR 0xF3] @ ''liza vigente''] else [])"

definition cotizacion_status :: "attachment_info \<Rightarrow> bool \<Rightarrow> string" where
  "cotizacion_status ai met =
     (let st = (if has_slip ai
                then (if slip_complete ai
                      then ''Cotizaci'' @ [CHR 0xF3] @ ''n con informaci'' @ [CHR 0xF3] @ ''n completa''
                      else ''Cotizaci'' @ [CHR 0xF3] @ ''n pendiente'')
                else [])
      in if st = [] \<and> met then ''Cotizaci'' @ [CHR 0xF3] @ ''n detectada'' else st)"

definition classify_cotizacion ::
  "metadata \<Rightarrow> attachment_info \<Rightarrow> email_content \<Rightarrow> py_exn + cotizacion_class" where
  "classify_cotizacion md ai ec =
     (case subject_upper md of Inl e \<Rightarrow> Inl e | Inr asunto \<Rightarrow>
      let cuerpo = upper (combined_text ec);
          ca1 = any_search cotizacion_asunto_patterns asunto;
          agente = str_or (extract_agente_code asunto) (extract_agente_code cuerpo);
          ca3 = any_search cotizacion_cuerpo_patterns cuerpo;
          score = cotizacion_score ca1 (agente \<noteq> []) ca3 ai
      in Inr \<lparr> confidence = min 100 score,
               criteria_met = cotizacion_criteria ca1 (agente \<noteq> []) ca3 ai,
               client_name = [],
               status = cotizacion_status ai (score \<ge> 40),
               is_cotizacion = (score \<ge> 40),
               agente_code = agente \<rparr>)"

subsection \<open>\<open>classify_renovacion\<close>\<close>

definition renovacion_score :: "bool \<Rightarrow> bool \<Rightarrow> bool \<Rightarrow> bool \<Rightarrow> bool \<Rightarrow> attachment_info \<Rightarrow> int" where
  "renovacion_score ca1 ca2 ca4 adj2 adj5 ai =
       (if ca1 then 35 else 0)
     + (if ca2 then 20 else 0)
     + (if ca4 then 15 else 0)
     + (if pdf_renovacion ai \<noteq> [] then 25 else 0)
     + (if adj2 then 20 else 0)
     - (if adj5 then 20 else 0)"

definition renovacion_criteria ::
  "bool \<Rightarrow> bool \<Rightarrow> bool \<Rightarrow> bool \<Rightarrow> bool \<Rightarrow> attachment_info \<Rightarrow> string list" where
  "renovacion_criteria ca1 ca2 ca4 adj2 adj5 ai =
       (if ca1 then [''CA1: Palabra clave de renovaci'' @ [CHR 0xF3] @ ''n en asunto''] else [])
     @ (if ca2 then [''CA2: N'' @ [CHR 0xFA] @ ''mero de p'' @ [CHR 0xF3] @ ''liza detectado''] else [])
     @ (if ca4 then [''CA4-6: Palabra clave de renovaci'' @ [CHR 0xF3] @ ''n en cuerpo''] else [])
     @ (if pdf_renovacion ai \<noteq> []
        then [''CA-Adj1: PDF de renovaci'' @ [CHR 0xF3] @ ''n presente''] else [])
     @ (if adj2
        then [''CA-Adj2: Documentos de p'' @ [CHR 0xF3] @ ''liza + renovaci'' @ [CHR 0xF3] @ ''n'']
        else [])
     @ (if adj5
        then [''CA-Adj5: Prevenci'' @ [CHR 0xF3] @ ''n falso positivo cotizaci'' @ [CHR 0xF3] @ ''n'']
        else [])"

definition renovacion_status :: "attachment_info \<Rightarrow> string \<Rightarrow> bool \<Rightarrow> string" where
  "renovacion_status ai poliza met =
     (if met
      then (if total_attachments ai > 0 \<and> poliza \<noteq> []
            then ''Renovaci'' @ [CHR 0xF3] @ ''n con informaci'' @ [CHR 0xF3] @ ''n completa''
            else ''Renovaci'' @ [CHR 0xF3] @ ''n pendiente'')
      else [])"

definition classify_renovacion ::
  "metadata \<Rightarrow> attachment_info \<Rightarrow> email_content \<Rightarrow> py_exn + renovacion_class" where
  "classify_renovacion md ai ec =
     (case subject_upper md of Inl e \<Rightarrow> Inl e | Inr asunto \<Rightarrow>
      let cuerpo = upper (combined_text ec);
          ca1 = any_search renovacion_asunto_patterns asunto;
          poliza = str_or (extract_poliza_number asunto) (extract_poliza_number cuerpo);
          ca4 = any_search renovacion_cuerpo_patterns cuerpo;
          adj2 = (pdf_poliza ai \<noteq> [] \<and> any_in [''RENOVACION'', ''RENOVAR''] asunto);
          adj5 = (pdf_cotizacion ai \<noteq> [] \<and> \<not> contains asunto ''RENOVACION'');
          score = renovacion_score ca1 (poliza \<noteq> []) ca4 adj2 adj5 ai
      in Inr \<lparr> confidence = min 100 score,
               criteria_met = renovacion_criteria ca1 (poliza \<noteq> []) ca4 adj2 adj5 ai,
               client_name = [],
               status = renovacion_status ai poliza (score \<ge> 40),
               poliza_number = poliza,
               is_renovacion = (score \<ge> 40) \<rparr>)"

subsection \<open>\<open>classify_endoso\<close>\<close>

definition endoso_score :: "bool \<Rightarrow> bool \<Rightarrow> bool \<Rightarrow> bool \<Rightarrow> attachment_info \<Rightarrow> int" where
  "endoso_score ca1 ca3 ca5 ca8 ai =
       (if ca1 then 35 else 0)
     + (if ca3 then 15 else 0)
     + (if ca5 then 25 else 0)
     + (if pdf_endoso ai \<noteq> [] then 20 else 0)
     + (if ca8 then 15 else 0)"

definition endoso_criteria :: "bool \<Rightarrow> bool \<Rightarrow> bool \<Rightarrow> bool \<Rightarrow> attachment_info \<Rightarrow> string list" where
  "endoso_criteria ca1 ca3 ca5 ca8 ai =
       (if ca1 then [''CA1-2: Palabra clave de endoso en asunto''] else [])
     @ (if ca3 then [''CA3-4: Palabra clave de endoso en cuerpo''] else [])
     @ (if ca5 then [''CA5: Referencia a p'' @ [CHR 0xF3] @ ''liza vigente''] else [])
     @ (if pdf_endoso ai \<noteq> [] then [''CA7: PDF de endoso presente''] else [])
     @ (if ca8 then [''CA8: Documentos de respaldo de endoso''] else [])"

text \<open>The subtype, looked for only when a subject pattern matched.\<close>

definition endoso_subtype :: "string \<Rightarrow> string" where
  "endoso_subtype asunto =
     (if contains asunto ''ENDOSO A'' then ''A''
      else if contains asunto ''ENDOSO B'' then ''B''
      else if contains asunto ''ENDOSO DE BP'' then ''BP''
      else if contains asunto ''ENDOSO ESPECIAL'' then ''ESPECIAL''
      else [])"

definition endoso_status :: "attachment_info \<Rightarrow> string \<Rightarrow> bool \<Rightarrow> string" where
  "endoso_status ai poliza met =
     (if met
      then (if poliza \<noteq> [] \<and> (pdf_endoso ai \<noteq> [] \<or> pdf_poliza ai \<noteq> [])
            then ''Endoso completo'' else ''Endoso incompleto'')
      else [])"

definition classify_endoso ::
  "metadata \<Rightarrow> attachment_info \<Rightarrow> email_content \<Rightarrow> py_exn + endoso_class" where
  "classify_endoso md ai ec =
     (case subject_upper md of Inl e \<Rightarrow> Inl e | Inr asunto \<Rightarrow>
      let cuerpo = upper (combined_text ec);
          ca1 = any_search endoso_asunto_patterns asunto;
          ca3 = any_search endoso_cuerpo_patterns cuerpo;
          poliza = str_or (extract_poliza_number asunto) (extract_poliza_number cuerpo);
          ca8 = (pdf_poliza ai \<noteq> [] \<and> any_in [''ENDOSO'', ''MODIFICACION'', ''CORRECCION''] asunto);
          score = endoso_score ca1 ca3 (poliza \<noteq> []) ca8 ai
      in Inr \<lparr> confidence = min 100 score,
               criteria_met = endoso_criteria ca1 ca3 (poliza \<noteq> []) ca8 ai,
               client_name = [],
               status = endoso_status ai poliza (score \<ge> 30),
               poliza_number = poliza,
               is_endoso = (score \<ge> 30),
               endoso_type = (if ca1 then endoso_subtype asunto else []) \<rparr>)"

section \<open>The store the classifier reads\<close>

text \<open>
  An entry of \<open>attachments/<id>/\<close>: its name, whether it is a regular file, and, read as a
  workbook, the number of cells of the active sheet whose value is not blank (\<open>None\<close> when
  \<open>load_workbook\<close> raises).
\<close>

record dir_entry =
  entry_name :: string
  is_file :: bool
  filled_cells :: "nat option"

text \<open>
  The output directory: \<open>metadata/<id>.json\<close> as the parsed record, \<open>emails/<id>.eml\<close> as
  the texts that parsing the file yields, \<open>attachments/<id>/\<close> as its entries in the
  order \<open>iterdir\<close> lists them.  A missing file or directory is \<open>None\<close>.  A metadata
  file that exists and that \<open>json.load\<close> cannot parse has no record: its id is in
  \<open>unparsable\<close>.
\<close>

record store =
  metadata_dir_exists :: bool
  metadata_files :: "string \<rightharpoonup> metadata"
  unparsable :: "string \<Rightarrow> bool"
  eml_files :: "string \<rightharpoonup> email_content"
  attachment_dirs :: "string \<rightharpoonup> dir_entry list"

definition extract_email_content :: "store \<Rightarrow> string \<Rightarrow> email_content" where
  "extract_email_content st email_id =
     (case eml_files st email_id of
        None \<Rightarrow> \<lparr> plain_text = [], html_content = [], combined_text = [] \<rparr>
      | Some content \<Rightarrow> content)"

definition is_excel :: "string \<Rightarrow> bool" where
  "is_excel fn = (endswith fn ''.XLSX'' \<or> endswith fn ''.XLS'')"

definition is_pdf_with :: "string list \<Rightarrow> string \<Rightarrow> bool" where
  "is_pdf_with words fn = (endswith fn ''.PDF'' \<and> any_in words fn)"

text \<open>One round of the loop over the directory.\<close>

definition analyze_file :: "attachment_info \<Rightarrow> dir_entry \<Rightarrow> attachment_info" where
  "analyze_file ai f =
     (if \<not> is_file f then ai
      else
        let ai1 = ai\<lparr> total_attachments := total_attachments ai + 1 \<rparr>;
            fn = upper (entry_name f)
        in if is_excel fn \<and> contains fn ''SLIP''
           then ai1\<lparr> has_slip := True,
                      slip_files := slip_files ai1 @ [entry_name f],
                      slip_complete := (case filled_cells f of
                                          None \<Rightarrow> slip_complete ai1
                                        | Some n \<Rightarrow> n > 5) \<rparr>
           else if is_excel fn
           then ai1\<lparr> excel_files := excel_files ai1 @ [entry_name f] \<rparr>
           else if is_pdf_with [''COTIZACION'', ''COT'', ''PROPUESTA'', ''SEGURO MULTIPLE EMPRESARIAL''] fn
           then ai1\<lparr> pdf_cotizacion := pdf_cotizacion ai1 @ [entry_name f] \<rparr>
           else if is_pdf_with [''POLIZA'', ''PBE'', ''RECIBO''] fn
           then ai1\<lparr> pdf_poliza := pdf_poliza ai1 @ [entry_name f] \<rparr>
           else if is_pdf_with [''RENOVACION'', ''RENOVAR'', ''CONDICIONES DE RENOVACION'',
                                ''PRORROGA'', ''REHABILITACION''] fn
           then ai1\<lparr> pdf_renovacion := pdf_renovacion ai1 @ [entry_name f] \<rparr>
           else if is_pdf_with [''ENDOSO'', ''BENEFICIOS'', ''INCISO'', ''CORRECCION'', ''MODIFICACION''] fn
           then ai1\<lparr> pdf_endoso := pdf_endoso ai1 @ [entry_name f] \<rparr>
           else ai1)"

definition no_attachments :: attachment_info where
  "no_attachments =
     \<lparr> has_slip = False, slip_complete = False, slip_files = [], pdf_cotizacion = [],
       pdf_poliza = [], pdf_renovacion = [], pdf_endoso = [], excel_files = [],
       total_attachments = 0 \<rparr>"

definition analyze_attachments :: "store \<Rightarrow> string \<Rightarrow> attachment_info" where
  "analyze_attachments st email_id =
     (case attachment_dirs st email_id of
        None \<Rightarrow> no_attachments
      | Some entries \<Rightarrow> foldl analyze_file no_attachments entries)"

section \<open>\<open>classify_email\<close>\<close>

record email_result =
  email_id :: string
  r_metadata :: metadata
  attachment_analysis :: attachment_info
  c_cotizacion :: cotizacion_class
  c_renovacion :: renovacion_class
  c_endoso :: endoso_class
  primary_type :: string
  primary_confidence :: int
  primary_status :: string

text \<open>
  An entry of the list \<open>classifications\<close>: the category's name with the confidence and the
  status of its result.  \<open>sort(key=..., reverse=True)\<close> is stable: among equal confidences
  the order cotizacion, renovacion, endoso is kept.
\<close>

type_synonym ranked = "string \<times> int \<times> string"

definition sort_by_confidence :: "ranked list \<Rightarrow> ranked list" where
  "sort_by_confidence xs = sort_key (\<lambda>x. - fst (snd x)) xs"

definition primary_class ::
  "cotizacion_class \<Rightarrow> renovacion_class \<Rightarrow> endoso_class \<Rightarrow> ranked" where
  "primary_class cot ren en =
     hd (sort_by_confidence
           [(''cotizacion'', confidence cot, status cot),
            (''renovacion'', confidence ren, status ren),
            (''endoso'', confidence en, status en)])"

definition classify_email :: "store \<Rightarrow> string \<Rightarrow> email_result reply" where
  "classify_email st eid =
     (case metadata_files st eid of
        None \<Rightarrow>
          if unparsable st eid then Raised JSONDecodeError
          else Error (''Metadatos no encontrados para '' @ eid)
      | Some md \<Rightarrow>
          let content = extract_email_content st eid;
              ai = analyze_attachments st eid
          in (case classify_cotizacion md ai content of Inl e \<Rightarrow> Raised e | Inr cot \<Rightarrow>
             (case classify_renovacion md ai content of Inl e \<Rightarrow> Raised e | Inr ren \<Rightarrow>
             (case classify_endoso md ai content of Inl e \<Rightarrow> Raised e | Inr en \<Rightarrow>
                let p = primary_class cot ren en
                in Result \<lparr> email_id = eid,
                            r_metadata = md,
                            attachment_analysis = ai,
                            c_cotizacion = cot,
                            c_renovacion = ren,
                            c_endoso = en,
                            primary_type = (if fst (snd p) \<ge> 30 then fst p else ''sin_clasificar''),
                            primary_confidence = fst (snd p),
                            primary_status = snd (snd p) \<rparr>))))"

section \<open>\<open>classify_all_emails\<close>\<close>

record results =
  total_emails :: nat
  cotizacion :: nat
  renovacion :: nat
  endoso :: nat
  sin_clasificar :: nat
  emails :: "email_result list"

text \<open>\<open>if primary_type in results: results[primary_type] += 1\<close>, for every key of the
  dictionary.\<close>

definition count_type :: "results \<Rightarrow> string \<Rightarrow> py_exn + results" where
  "count_type res t =
     (if t = ''total_emails'' then Inr (res\<lparr> total_emails := total_emails res + 1 \<rparr>)
      else if t = ''cotizacion'' then Inr (res\<lparr> cotizacion := cotizacion res + 1 \<rparr>)
      else if t = ''renovacion'' then Inr (res\<lparr> renovacion := renovacion res + 1 \<rparr>)
      else if t = ''endoso'' then Inr (res\<lparr> endoso := endoso res + 1 \<rparr>)
      else if t = ''sin_clasificar'' then Inr (res\<lparr> sin_clasificar := sin_clasificar res + 1 \<rparr>)
      else if t = ''emails'' then Inl TypeError
      else Inr res)"

text \<open>The loop over \<open>metadata_dir.glob('*.json')\<close>, given as the stems of the files listed.\<close>

fun classify_loop :: "store \<Rightarrow> results \<Rightarrow> string list \<Rightarrow> py_exn + results" where
  "classify_loop st res [] = Inr res"
| "classify_loop st res (stem # rest) =
     (if stem = ''progress'' then classify_loop st res rest
      else (case classify_email st stem of
              Raised e \<Rightarrow> Inl e
            | Error msg \<Rightarrow> classify_loop st res rest
            | Result c \<Rightarrow>
                (case count_type (res\<lparr> emails := emails res @ [c],
                                       total_emails := total_emails res + 1 \<rparr>) (primary_type c) of
                   Inl e \<Rightarrow> Inl e
                 | Inr res' \<Rightarrow> classify_loop st res' rest)))"

definition empty_results :: results where
  "empty_results =
     \<lparr> total_emails = 0, cotizacion = 0, renovacion = 0, endoso = 0, sin_clasificar = 0,
       emails = [] \<rparr>"

text \<open>The result set is also written to \<open>classification_results.json\<close>; that write is not
  part of the model.\<close>

definition classify_all_emails :: "store \<Rightarrow> string list \<Rightarrow> results reply" where
  "classify_all_emails st listing =
     (if \<not> metadata_dir_exists st then Error ''Directorio de metadatos no encontrado''
      else case classify_loop st empty_results listing of
             Inl e \<Rightarrow> Raised e
           | Inr res \<Rightarrow> Result res)"

section \<open>The extractor\<close>

subsection \<open>The archive\<close>

text \<open>
  An attachment as the archive reader gives it: its two names (empty when the attribute is
  missing or empty) and the bytes that \<open>read_buffer(get_size())\<close> returns, \<open>None\<close> when one
  of the two calls raises.
\<close>

record pst_attachment =
  att_name :: string
  long_filename :: string
  payload :: "string option"

text \<open>\<open>message.get_attachment(i)\<close> returns nothing, raises, or returns the attachment.\<close>

datatype att_slot = NoAttachment | BadAttachment | Attachment pst_attachment

text \<open>
  What becomes of the message that \<open>create_eml_file\<close> synthesizes: it is built and turned
  into text; or an exception is raised while it is built, before the file is opened (an
  accessor of the message that raises); or an exception is raised after the file has been
  opened, when the message is turned into text and written (a subject with a line break).
\<close>

datatype eml_build = Builds | FailsBeforeOpen | FailsAfterOpen

text \<open>A message: its subject as the accessor gives it (no attribute, \<open>None\<close> or a string),
  its two bodies, its attachment slots, \<open>None\<close> when the count cannot be read, what becomes
  of its synthesized message, and whether \<open>json.dump\<close> can write its metadata record to
  the end.\<close>

record message =
  msg_subject :: jstr
  plain_text_body :: string
  html_body :: string
  slots :: "att_slot list option"
  eml_build :: eml_build
  json_dumps :: bool

text \<open>\<open>folder.get_sub_message(i)\<close> returns nothing, returns a message or raises;
  \<open>Sigint\<close> stands for a \<open>KeyboardInterrupt\<close> that is delivered at this point of the loop
  over the messages.\<close>

datatype walk_item = NoMessage | Message message | BadMessage | Sigint

text \<open>A folder: its name (empty when the attribute is missing or empty), whether the
  number of its messages can be read, its messages by index, whether the number of its
  subfolders can be read, and its subfolders by index.  \<open>folder.get_sub_folder(i)\<close>
  returns nothing, raises, or returns the folder.\<close>

datatype folder = Folder string bool "walk_item list" bool "sub_slot list"
  and sub_slot = NoFolder | BadFolder | SubFolder folder

text \<open>\<open>pst_file.open\<close> raises, or the archive has a root folder.\<close>

datatype archive = Unreadable | Archive folder

subsection \<open>The output directory and the extractor's state\<close>

record progress =
  processed_emails :: "string list"
  total_processed :: nat

text \<open>What a file under the output directory holds: the bytes of an attachment, a
  synthesized message (subject, plain part, HTML part), a metadata record, the progress
  record, or the beginning of something whose writing raised after the file had been
  opened.  Time stamps are left out.\<close>

datatype file_data =
    Bytes string
  | EmlFile string string string
  | MetaFile metadata
  | ProgressFile progress
  | Truncated

text \<open>Files by name.  The files that the extractor names itself, \<open>emails/<id>.eml\<close>,
  \<open>metadata/<id>.json\<close> and \<open>progress.json\<close>, are under their path relative to the output
  directory, whose three subdirectories the constructor creates.\<close>

type_synonym files = "string \<rightharpoonup> file_data"

text \<open>
  The file system as the extractor meets it.  \<open>writable\<close> tells for one of the
  extractor's own paths whether opening it for writing succeeds; where it does not,
  \<open>open\<close> raises \<open>OSError\<close>.  \<open>can_mkdir\<close> tells for a directory whether
  \<open>mkdir(exist_ok=True)\<close> succeeds.  The path of an attachment ends with a name taken
  from the archive, which may hold \<open>..\<close> or further directories; \<open>locate\<close> tells for such a
  path which file opening it for writing reaches, \<open>None\<close> when \<open>open\<close> raises.  Two
  paths may reach the same file, and the file reached may be one of the extractor's own
  or lie outside of the output directory.
\<close>

record env =
  writable :: "string \<Rightarrow> bool"
  can_mkdir :: "string \<Rightarrow> bool"
  locate :: "string \<Rightarrow> string option"

record extractor =
  processed_count :: nat
  progress_data :: progress
  fs :: files

datatype outcome = Done | Raise py_exn

text \<open>\<open>load_progress\<close> and the constructor.\<close>

definition load_progress :: "files \<Rightarrow> progress" where
  "load_progress f =
     (case f ''progress.json'' of
        Some (ProgressFile p) \<Rightarrow> p
      | _ \<Rightarrow> \<lparr> processed_emails = [], total_processed = 0 \<rparr>)"

definition new_extractor :: "files \<Rightarrow> extractor" where
  "new_extractor f = \<lparr> processed_count = 0, progress_data = load_progress f, fs = f \<rparr>"

definition save_progress :: "env \<Rightarrow> extractor \<Rightarrow> outcome \<times> extractor" where
  "save_progress env s =
     (let s1 = s\<lparr> progress_data := (progress_data s)\<lparr> total_processed := processed_count s \<rparr> \<rparr>
      in if writable env ''progress.json''
         then (Done, s1\<lparr> fs := (fs s1)(''progress.json'' \<mapsto> ProgressFile (progress_data s1)) \<rparr>)
         else (Raise OSError, s1))"

subsection \<open>Message ids\<close>

fun nat_digits :: "nat \<Rightarrow> string" where
  "nat_digits n =
     (if n < 10 then [chr_of (48 + n)]
      else nat_digits (n div 10) @ [chr_of (48 + n mod 10)])"

text \<open>\<open>f"email_{n:06d}"\<close>.\<close>

definition email_id_of :: "nat \<Rightarrow> string" where
  "email_id_of n =
     ''email_'' @ replicate (6 - length (nat_digits n)) (CHR ''0'') @ nat_digits n"

subsection \<open>Paths of attachments\<close>

text \<open>
  \<open>self.attachments_dir / email_id / filename\<close>, as \<open>pathlib\<close> joins paths on a POSIX
  system.  The name is cut at every \<open>/\<close>; empty components and the component \<open>.\<close> are
  dropped, the component \<open>..\<close> is kept.  A name that begins with \<open>/\<close> is absolute and
  replaces the directory it is joined to; its root is \<open>//\<close> when the name begins with
  exactly two slashes.
\<close>

fun split_slash :: "string \<Rightarrow> string list" where
  "split_slash [] = [] # []"
| "split_slash (c # cs) =
     (if c = CHR ''/'' then [] # split_slash cs
      else (case split_slash cs of
              [] \<Rightarrow> [c] # []
            | x # xs \<Rightarrow> (c # x) # xs))"

definition name_parts :: "string \<Rightarrow> string list" where
  "name_parts n = filter (\<lambda>c. c \<noteq> [] \<and> c \<noteq> ''.'') (split_slash n)"

fun join_parts :: "string list \<Rightarrow> string" where
  "join_parts [] = []"
| "join_parts [c] = c"
| "join_parts (c # d # rest) = c @ ''/'' @ join_parts (d # rest)"

definition is_absolute :: "string \<Rightarrow> bool" where
  "is_absolute n = (take 1 n = ''/'')"

definition root_of :: "string \<Rightarrow> string" where
  "root_of n = (if take 2 n = ''//'' \<and> take 3 n \<noteq> ''///'' then ''//'' else ''/'')"

definition attachment_dir :: "string \<Rightarrow> string" where
  "attachment_dir eid = ''attachments/'' @ eid"

text \<open>The path that is opened, relative to the output directory unless it is absolute.\<close>

definition attachment_path :: "string \<Rightarrow> string \<Rightarrow> string" where
  "attachment_path eid fname =
     (if is_absolute fname then root_of fname @ join_parts (name_parts fname)
      else join_parts (''attachments'' # eid # name_parts fname))"

text \<open>\<open>str(attachment_path.relative_to(self.output_dir))\<close>, which raises \<open>ValueError\<close> for
  an absolute path: the output directory is the relative path \<open>output\<close>.\<close>

definition relative_path :: "string \<Rightarrow> string \<Rightarrow> string option" where
  "relative_path eid fname =
     (if is_absolute fname then None else Some (attachment_path eid fname))"

subsection \<open>\<open>extract_attachments\<close>\<close>

definition attachment_filename :: "nat \<Rightarrow> pst_attachment \<Rightarrow> string" where
  "attachment_filename i a =
     (if att_name a \<noteq> [] then att_name a
      else if long_filename a \<noteq> [] then long_filename a
      else ''attachment_'' @ nat_digits i)"

text \<open>
  The loop over the attachment indices, from index \<open>i\<close> on.  A slot that gives nothing is
  passed over; a slot that raises ends the loop, and so does a directory that cannot be
  made (the outer handler); an attachment that cannot be read or written is reported and
  passed over (the inner handler).  The list entry is made after the file is written: when
  the path is absolute the file is written and the attachment gets no entry.
\<close>

fun save_attachments ::
  "env \<Rightarrow> string \<Rightarrow> nat \<Rightarrow> att_slot list \<Rightarrow> files \<Rightarrow> att_entry list
     \<Rightarrow> files \<times> att_entry list" where
  "save_attachments env eid i [] f acc = (f, acc)"
| "save_attachments env eid i (NoAttachment # rest) f acc =
     save_attachments env eid (Suc i) rest f acc"
| "save_attachments env eid i (BadAttachment # rest) f acc = (f, acc)"
| "save_attachments env eid i (Attachment a # rest) f acc =
     (if \<not> can_mkdir env (attachment_dir eid) then (f, acc)
      else
        let fname = attachment_filename i a
        in case payload a of
             None \<Rightarrow> save_attachments env eid (Suc i) rest f acc
           | Some data \<Rightarrow>
               (case locate env (attachment_path eid fname) of
                  None \<Rightarrow> save_attachments env eid (Suc i) rest f acc
                | Some l \<Rightarrow>
                    (case relative_path eid fname of
                       None \<Rightarrow> save_attachments env eid (Suc i) rest (f(l \<mapsto> Bytes data)) acc
                     | Some p \<Rightarrow>
                         save_attachments env eid (Suc i) rest (f(l \<mapsto> Bytes data))
                           (acc @ [\<lparr> filename = fname, att_size = length data, path = p \<rparr>]))))"

definition extract_attachments ::
  "env \<Rightarrow> message \<Rightarrow> string \<Rightarrow> files \<Rightarrow> files \<times> att_entry list" where
  "extract_attachments env m eid f =
     (case slots m of
        None \<Rightarrow> (f, [])
      | Some sl \<Rightarrow> save_attachments env eid 0 sl f [])"

subsection \<open>\<open>create_eml_file\<close>, \<open>extract_metadata\<close>, \<open>process_message\<close>\<close>

definition eml_path :: "string \<Rightarrow> string" where
  "eml_path eid = ''emails/'' @ eid @ ''.eml''"

definition metadata_path :: "string \<Rightarrow> string" where
  "metadata_path eid = ''metadata/'' @ eid @ ''.json''"

definition subject_text :: "message \<Rightarrow> string" where
  "subject_text m = (case msg_subject m of JStr s \<Rightarrow> s | _ \<Rightarrow> [])"

text \<open>Returns the path of the file, or \<open>None\<close> when an exception was raised; when it was
  raised after the file had been opened, the file is left behind, empty or cut short.\<close>

definition create_eml_file ::
  "env \<Rightarrow> message \<Rightarrow> string \<Rightarrow> files \<Rightarrow> files \<times> string option" where
  "create_eml_file env m eid f =
     (if eml_build m = FailsBeforeOpen \<or> \<not> writable env (eml_path eid) then (f, None)
      else if eml_build m = FailsAfterOpen then (f(eml_path eid \<mapsto> Truncated), None)
      else (f(eml_path eid \<mapsto> EmlFile (subject_text m) (plain_text_body m) (html_body m)),
            Some (eml_path eid)))"

definition extract_metadata ::
  "message \<Rightarrow> string \<Rightarrow> string \<Rightarrow> string option \<Rightarrow> att_entry list \<Rightarrow> metadata" where
  "extract_metadata m eid folder_name eml atts =
     \<lparr> md_id = eid,
       folder = folder_name,
       subject = msg_subject m,
       eml_file = eml,
       attachments = atts,
       plain_text_length = length (plain_text_body m),
       html_content_length = length (html_body m) \<rparr>"

text \<open>
  The counter advances first; a message whose id is already in the progress record is
  skipped.  Otherwise attachments, the \<open>.eml\<close> file and the metadata record are written in
  this order, the id is appended, and every tenth count the progress record is saved.
  An exception of the metadata write or of that save is caught and reported; a metadata
  record that \<open>json.dump\<close> cannot write to the end is left behind cut short.
\<close>

definition process_message :: "env \<Rightarrow> message \<Rightarrow> string \<Rightarrow> extractor \<Rightarrow> extractor" where
  "process_message env m folder_name s =
     (let n = processed_count s + 1;
          eid = email_id_of n;
          s1 = s\<lparr> processed_count := n \<rparr>
      in if eid \<in> set (processed_emails (progress_data s1)) then s1
         else
           let (f1, atts) = extract_attachments env m eid (fs s1);
               (f2, eml) = create_eml_file env m eid f1;
               md = extract_metadata m eid folder_name eml atts
           in if \<not> writable env (metadata_path eid) then s1\<lparr> fs := f2 \<rparr>
              else if \<not> json_dumps m then s1\<lparr> fs := f2(metadata_path eid \<mapsto> Truncated) \<rparr>
              else
                let s2 = s1\<lparr> fs := f2(metadata_path eid \<mapsto> MetaFile md),
                             progress_data := (progress_data s1)
                               \<lparr> processed_emails := processed_emails (progress_data s1) @ [eid] \<rparr> \<rparr>
                in if n mod 10 = 0 then snd (save_progress env s2) else s2)"

subsection \<open>\<open>process_folder\<close> and \<open>extract\<close>\<close>

text \<open>The method \<open>extract\<close> is called \<open>extract_pst\<close> here.\<close>

text \<open>The loop over the messages of a folder.  \<open>KeyboardInterrupt\<close> is not an
  \<open>Exception\<close>, so no handler \<open>except Exception\<close> on the way out catches it.\<close>

fun process_messages ::
  "env \<Rightarrow> string \<Rightarrow> walk_item list \<Rightarrow> extractor \<Rightarrow> outcome \<times> extractor" where
  "process_messages env folder_name [] s = (Done, s)"
| "process_messages env folder_name (NoMessage # rest) s = process_messages env folder_name rest s"
| "process_messages env folder_name (BadMessage # rest) s = (Raise OSError, s)"
| "process_messages env folder_name (Sigint # rest) s = (Raise KeyboardInterrupt, s)"
| "process_messages env folder_name (Message m # rest) s =
     process_messages env folder_name rest (process_message env m folder_name s)"

text \<open>
  The alternative loop that the handler of the first one runs: it starts again at index 0
  and goes on until \<open>get_sub_message\<close> returns nothing, the messages run out, or anything
  is raised, a \<open>KeyboardInterrupt\<close> too, which the bare \<open>except\<close> swallows.
\<close>

fun direct_iteration :: "env \<Rightarrow> string \<Rightarrow> walk_item list \<Rightarrow> extractor \<Rightarrow> extractor" where
  "direct_iteration env folder_name (Message m # rest) s =
     direct_iteration env folder_name rest (process_message env m folder_name s)"
| "direct_iteration env folder_name items s = s"

definition folder_path_name :: "string \<Rightarrow> string \<Rightarrow> string" where
  "folder_path_name folder_path name =
     (if name \<noteq> [] then (if folder_path \<noteq> [] then folder_path @ ''/'' @ name else name)
      else folder_path)"

text \<open>The messages of a folder: the first loop, and the alternative loop when the first
  one, or reading the number of messages, raises an \<open>Exception\<close>.\<close>

definition folder_messages ::
  "env \<Rightarrow> string \<Rightarrow> bool \<Rightarrow> walk_item list \<Rightarrow> extractor \<Rightarrow> outcome \<times> extractor" where
  "folder_messages env folder_name countable items s =
     (case (if countable then process_messages env folder_name items s else (Raise OSError, s)) of
        (Done, s1) \<Rightarrow> (Done, s1)
      | (Raise e, s1) \<Rightarrow>
          if e = KeyboardInterrupt then (Raise e, s1)
          else (Done, direct_iteration env folder_name items s1))"

text \<open>The subfolders are walked inside \<open>try ... except Exception\<close>: a subfolder that
  cannot be read ends the walk of this folder without an error.\<close>

fun process_folder :: "env \<Rightarrow> folder \<Rightarrow> string \<Rightarrow> extractor \<Rightarrow> outcome \<times> extractor"
  and process_folders ::
    "env \<Rightarrow> sub_slot list \<Rightarrow> string \<Rightarrow> extractor \<Rightarrow> outcome \<times> extractor" where
  "process_folder env (Folder name countable items subs_countable subfolders) folder_path s =
     (case folder_messages env (folder_path_name folder_path name) countable items s of
        (Raise e, s1) \<Rightarrow> (Raise e, s1)
      | (Done, s1) \<Rightarrow>
          if subs_countable
          then process_folders env subfolders (folder_path_name folder_path name) s1
          else (Done, s1))"
| "process_folders env [] folder_path s = (Done, s)"
| "process_folders env (NoFolder # rest) folder_path s = process_folders env rest folder_path s"
| "process_folders env (BadFolder # rest) folder_path s = (Done, s)"
| "process_folders env (SubFolder sub # rest) folder_path s =
     (case process_folder env sub folder_path s of
        (Raise e, s1) \<Rightarrow> if e = KeyboardInterrupt then (Raise e, s1) else (Done, s1)
      | (Done, s1) \<Rightarrow> process_folders env rest folder_path s1)"

text \<open>The handler \<open>except Exception: save_progress(); raise\<close> of \<open>extract\<close>.\<close>

definition on_exception :: "env \<Rightarrow> py_exn \<Rightarrow> extractor \<Rightarrow> outcome \<times> extractor" where
  "on_exception env e s =
     (if e = KeyboardInterrupt then (Raise e, s)
      else case save_progress env s of
             (Raise e', s1) \<Rightarrow> (Raise e', s1)
           | (Done, s1) \<Rightarrow> (Raise e, s1))"

definition extract_pst :: "env \<Rightarrow> archive \<Rightarrow> extractor \<Rightarrow> outcome \<times> extractor" where
  "extract_pst env arch s =
     (case arch of
        Unreadable \<Rightarrow> on_exception env OSError s
      | Archive root \<Rightarrow>
          (case process_folder env root [] s of
             (Raise e, s1) \<Rightarrow> on_exception env e s1
           | (Done, s1) \<Rightarrow>
               (case save_progress env s1 of
                  (Raise e, s2) \<Rightarrow> on_exception env e s2
                | (Done, s2) \<Rightarrow> (Done, s2))))"

text \<open>What \<open>main\<close> of \<open>extract_pst.py\<close> tells the user after the run: that the extraction
  is complete, that it was interrupted and the progress has been saved in
  \<open>progress.json\<close>, or that it failed.\<close>

datatype report = Completed | InterruptedProgressSaved | Failed

definition main :: "env \<Rightarrow> archive \<Rightarrow> files \<Rightarrow> report \<times> extractor" where
  "main env arch f =
     (case extract_pst env arch (new_extractor f) of
        (Done, s) \<Rightarrow> (Completed, s)
      | (Raise e, s) \<Rightarrow>
          (if e = KeyboardInterrupt then (InterruptedProgressSaved, s) else (Failed, s)))"

section \<open>Messages without evidence\<close>

text \<open>A body in which no evaluator finds anything: no body keyword of any category, no
  agent code and no policy number.\<close>

definition no_body_evidence :: "string \<Rightarrow> bool" where
  "no_body_evidence cuerpo =
     (\<not> any_search cotizacion_cuerpo_patterns cuerpo \<and> extract_agente_code cuerpo = []
      \<and> \<not> any_search renovacion_cuerpo_patterns cuerpo \<and> extract_poliza_number cuerpo = []
      \<and> \<not> any_search endoso_cuerpo_patterns cuerpo)"

text \<open>A subject whose only evidence is a Quote keyword.\<close>

definition only_quote_keyword :: "string \<Rightarrow> bool" where
  "only_quote_keyword asunto =
     (any_search cotizacion_asunto_patterns asunto \<and> extract_agente_code asunto = []
      \<and> \<not> any_search renovacion_asunto_patterns asunto \<and> extract_poliza_number asunto = []
      \<and> \<not> any_search endoso_asunto_patterns asunto)"

text \<open>An attachment analysis without a slip and without a PDF of any category.\<close>

definition no_attachment_evidence :: "attachment_info \<Rightarrow> bool" where
  "no_attachment_evidence ai =
     (\<not> has_slip ai \<and> pdf_cotizacion ai = [] \<and> pdf_poliza ai = [] \<and> pdf_renovacion ai = []
      \<and> pdf_endoso ai = [])"

text \<open>An attachment analysis whose only evidence is a policy PDF.\<close>

definition only_policy_pdf :: "attachment_info \<Rightarrow> bool" where
  "only_policy_pdf ai =
     (\<not> has_slip ai \<and> pdf_cotizacion ai = [] \<and> pdf_poliza ai \<noteq> [] \<and> pdf_renovacion ai = []
      \<and> pdf_endoso ai = [])"

section \<open>What the aggregator's counters count\<close>

text \<open>The number of results of a given primary type.\<close>

definition count_of :: "string \<Rightarrow> email_result list \<Rightarrow> nat" where
  "count_of t rs = length (filter (\<lambda>r. primary_type r = t) rs)"

text \<open>The invariant of the loop of \<open>classify_all_emails\<close>: the total is the length of the
  list, each counter is the number of results of its type, and every result has one of
  the four types.\<close>

definition counted :: "results \<Rightarrow> bool" where
  "counted res =
     (total_emails res = length (emails res)
      \<and> cotizacion res = count_of ''cotizacion'' (emails res)
      \<and> renovacion res = count_of ''renovacion'' (emails res)
      \<and> endoso res = count_of ''endoso'' (emails res)
      \<and> sin_clasificar res = count_of ''sin_clasificar'' (emails res)
      \<and> (\<forall>r \<in> set (emails res).
            primary_type r \<in> {''cotizacion'', ''renovacion'', ''endoso'', ''sin_clasificar''}))"

text \<open>The results of the messages of a listing that can be classified, in the order of
  the listing.\<close>

definition classified :: "store \<Rightarrow> string list \<Rightarrow> email_result list" where
  "classified st listing =
     concat (map (\<lambda>stem. if stem = ''progress'' then []
                          else (case classify_email st stem of Result r \<Rightarrow> [r] | _ \<Rightarrow> []))
               listing)"

section \<open>What the extractor leaves on disk\<close>


text \<open>
  The attachments that the loop of \<open>extract_attachments\<close> reads and writes, in read
  order, from index \<open>i\<close> on: for each of them the file that was written, its bytes, and
  the entry made for it in the attachment list, if one was made.
\<close>

type_synonym att_write = "string \<times> string \<times> att_entry option"


text \<open>The entries made, in order.\<close>

definition listed :: "att_write list \<Rightarrow> att_entry list" where
  "listed ws = concat (map (\<lambda>w. case snd (snd w) of None \<Rightarrow> [] | Some a \<Rightarrow> [a]) ws)"

text \<open>The bytes of the last attachment that was written to a file.\<close>

definition last_written :: "att_write list \<Rightarrow> string \<Rightarrow> string option" where
  "last_written ws l = map_of (rev (map (\<lambda>w. (fst w, fst (snd w))) ws)) l"



section \<open>Sample inputs\<close>

definition sample_metadata :: "jstr \<Rightarrow> metadata" where
  "sample_metadata s =
     \<lparr> md_id = [], folder = ''Inbox'', subject = s, eml_file = None, attachments = [],
       plain_text_length = 0, html_content_length = 0 \<rparr>"

definition no_content :: email_content where
  "no_content = \<lparr> plain_text = [], html_content = [], combined_text = [] \<rparr>"

definition body_text :: "string \<Rightarrow> email_content" where
  "body_text t = \<lparr> plain_text = t, html_content = [], combined_text = t \<rparr>"

definition plain_file :: "string \<Rightarrow> dir_entry" where
  "plain_file n = \<lparr> entry_name = n, is_file = True, filled_cells = None \<rparr>"

definition slip_file :: "string \<Rightarrow> nat \<Rightarrow> dir_entry" where
  "slip_file n cells = \<lparr> entry_name = n, is_file = True, filled_cells = Some cells \<rparr>"

text \<open>The analysis of a directory that holds one policy PDF and nothing else.\<close>

definition policy_pdf_only :: attachment_info where
  "policy_pdf_only = no_attachments\<lparr> pdf_poliza := [''POLIZA.pdf''], total_attachments := 1 \<rparr>"

text \<open>
  A store with five ids.  Message 1 has the subject \<open>ENDOSO A\<close> and a policy PDF;
  message 2 has the subject \<open>COTIZACION\<close> and nothing else; id 3 has no metadata file;
  message 6 has a \<open>null\<close> subject; message 7 has a subject without any keyword.
\<close>

definition sample_store :: store where
  "sample_store =
     \<lparr> metadata_dir_exists = True,
       metadata_files =
         [''email_000001'' \<mapsto> sample_metadata (JStr ''ENDOSO A''),
          ''email_000002'' \<mapsto> sample_metadata (JStr ''COTIZACION''),
          ''email_000006'' \<mapsto> sample_metadata JNull,
          ''email_000007'' \<mapsto> sample_metadata (JStr ''Hola'')],
       unparsable = (\<lambda>eid. False),
       eml_files = Map.empty,
       attachment_dirs = [''email_000001'' \<mapsto> [plain_file ''POLIZA.pdf'']] \<rparr>"

text \<open>
  A quote request with every Quote criterion: a subject keyword, an agent code, a body
  keyword, a complete slip and a quote PDF; and the same request with a policy PDF in
  addition.
\<close>

definition full_quote :: metadata where
  "full_quote = sample_metadata (JStr ''Cot ag 7'')"

definition full_quote_body :: email_content where
  "full_quote_body = body_text ''apoyo para cotizar''"

definition full_quote_files :: "dir_entry list" where
  "full_quote_files = [slip_file ''slip.xlsx'' 6, plain_file ''propuesta.pdf'']"

definition full_quote_analysis :: attachment_info where
  "full_quote_analysis = foldl analyze_file no_attachments full_quote_files"

definition full_quote_analysis_policy :: attachment_info where
  "full_quote_analysis_policy =
     foldl analyze_file no_attachments (full_quote_files @ [plain_file ''POLIZA.pdf''])"

text \<open>The entries of a result that the properties below speak of: the primary type,
  confidence and status, and for each category its confidence and its flag, with the
  criteria of the Quote result and the subtype and status of the Endorsement result.\<close>

definition summary ::
  "email_result \<Rightarrow> (string \<times> int \<times> string) \<times> (int \<times> bool \<times> string list) \<times> (int \<times> bool)
     \<times> (int \<times> bool \<times> string \<times> string)" where
  "summary r =
     ((primary_type r, primary_confidence r, primary_status r),
      (confidence (c_cotizacion r), is_cotizacion (c_cotizacion r), criteria_met (c_cotizacion r)),
      (confidence (c_renovacion r), is_renovacion (c_renovacion r)),
      (confidence (c_endoso r), is_endoso (c_endoso r), endoso_type (c_endoso r),
       status (c_endoso r)))"

definition summary_of :: "email_result reply \<Rightarrow> _ option" where
  "summary_of x = (case x of Result r \<Rightarrow> Some (summary r) | _ \<Rightarrow> None)"

text \<open>A listing of the metadata directory of the sample store, with the progress file and
  with id 3, whose metadata file is missing.\<close>

definition sample_listing :: "string list" where
  "sample_listing =
     [''email_000001'', ''progress'', ''email_000003'', ''email_000002'', ''email_000007'']"

text \<open>A disk on which every write succeeds and every attachment path reaches the file of
  that name.\<close>

definition flat_disk :: env where
  "flat_disk = \<lparr> writable = (\<lambda>p. True), can_mkdir = (\<lambda>d. True), locate = Some \<rparr>"

text \<open>A message with two attachments of the same name.\<close>

definition twin_slots :: "att_slot list" where
  "twin_slots =
     [Attachment \<lparr> att_name = ''a.pdf'', long_filename = [], payload = Some ''one'' \<rparr>,
      Attachment \<lparr> att_name = ''a.pdf'', long_filename = [], payload = Some ''two'' \<rparr>]"

definition twin_message :: message where
  "twin_message =
     \<lparr> msg_subject = JStr ''Hola'', plain_text_body = ''x'', html_body = [],
       slots = Some twin_slots, eml_build = Builds, json_dumps = True \<rparr>"

text \<open>A message with three attachments whose names differ and whose paths are one: the
  names \<open>a.pdf\<close>, \<open>./a.pdf\<close> and \<open>.//a.pdf\<close>.\<close>

definition dot_slots :: "att_slot list" where
  "dot_slots =
     [Attachment \<lparr> att_name = ''a.pdf'', long_filename = [], payload = Some ''one'' \<rparr>,
      Attachment \<lparr> att_name = ''./a.pdf'', long_filename = [], payload = Some ''two'' \<rparr>,
      Attachment \<lparr> att_name = ''.//a.pdf'', long_filename = [], payload = Some ''three'' \<rparr>]"

definition dot_message :: message where
  "dot_message =
     \<lparr> msg_subject = JStr ''Hola'', plain_text_body = ''x'', html_body = [],
       slots = Some dot_slots, eml_build = Builds, json_dumps = True \<rparr>"

text \<open>A message whose attachment has an absolute name.\<close>

definition absolute_message :: message where
  "absolute_message =
     \<lparr> msg_subject = JStr ''Hola'', plain_text_body = ''x'', html_body = [],
       slots = Some [Attachment \<lparr> att_name = ''/tmp/a.pdf'', long_filename = [],
                                   payload = Some ''one'' \<rparr>],
       eml_build = Builds, json_dumps = True \<rparr>"




text \<open>A message without attachments, and a run over an archive with two such messages
  that is interrupted before the third, on an empty disk where every write succeeds.\<close>

definition short_message :: message where
  "short_message =
     \<lparr> msg_subject = JStr ''Hola'', plain_text_body = ''x'', html_body = [], slots = Some [],
       eml_build = Builds, json_dumps = True \<rparr>"

definition interrupted_archive :: archive where
  "interrupted_archive =
     Archive (Folder ''Inbox'' True
                [Message short_message, Message short_message, Sigint, Message short_message]
                True [])"

definition interrupted_run :: "report \<times> extractor" where
  "interrupted_run = main flat_disk interrupted_archive Map.empty"

text \<open>A message without subject, and a message whose subject has a line break, so that
  its synthesized message cannot be turned into text.\<close>

definition subjectless_message :: message where
  "subjectless_message = short_message\<lparr> msg_subject := JNull \<rparr>"

definition two_line_message :: message where
  "two_line_message =
     short_message\<lparr> msg_subject := JStr (''Hola'' @ [CHR 0x0A] @ ''Hola''),
                     eml_build := FailsAfterOpen \<rparr>"

text \<open>A folder in which reading the second message raises: the first message is
  extracted by the first loop and again by the alternative loop.\<close>

definition broken_archive :: archive where
  "broken_archive =
     Archive (Folder ''Inbox'' True [Message short_message, BadMessage, Message twin_message]
                True [])"

text \<open>
  A disk on which the per-message directories of the attachments have no links: the path
  of an attachment whose name is \<open>../../metadata/email_000001.json\<close> reaches the metadata
  record of the first message.  A message with an attachment of that name.
\<close>

definition climbing_disk :: env where
  "climbing_disk =
     flat_disk\<lparr> locate := (\<lambda>p. if p = ''attachments/email_000002/../../metadata/email_000001.json''
                                then Some ''metadata/email_000001.json'' else Some p) \<rparr>"

definition climbing_message :: message where
  "climbing_message =
     \<lparr> msg_subject = JStr ''Hola'', plain_text_body = ''x'', html_body = [],
       slots = Some [Attachment \<lparr> att_name = ''../../metadata/email_000001.json'',
                                   long_filename = [], payload = Some ''one'' \<rparr>],
       eml_build = Builds, json_dumps = True \<rparr>"

definition climbing_archive :: archive where
  "climbing_archive =
     Archive (Folder ''Inbox'' True [Message short_message, Message climbing_message] True [])"

section \<open>Properties of the evaluators\<close>

lemma cotizacion_score_bounds:
  "- 15 \<le> cotizacion_score b1 b2 b3 ai \<and> cotizacion_score b1 b2 b3 ai \<le> 125"
  by (simp add: cotizacion_score_def)

lemma renovacion_score_bounds:
  "- 20 \<le> renovacion_score b1 b2 b3 b4 b5 ai \<and> renovacion_score b1 b2 b3 b4 b5 ai \<le> 115"
  by (simp add: renovacion_score_def)

lemma endoso_score_bounds:
  "0 \<le> endoso_score b1 b2 b3 b4 ai \<and> endoso_score b1 b2 b3 b4 ai \<le> 110"
  by (simp add: endoso_score_def)

lemma subject_upper_total: "subject md \<noteq> JNull \<Longrightarrow> \<exists>a. subject_upper md = Inr a"
  by (cases "subject md") (simp_all add: subject_upper_def)

lemma subject_upper_null: "subject md = JNull \<Longrightarrow> subject_upper md = Inl AttributeError"
  by (simp add: subject_upper_def)

text \<open>The outcomes of the criteria that do not depend on the attachments.\<close>

lemma classify_cotizacion_returns:
  "subject_upper md = Inr a \<Longrightarrow>
   \<exists>c. classify_cotizacion md ai ec = Inr c \<and>
       confidence c =
         min 100 (cotizacion_score (any_search cotizacion_asunto_patterns a)
                    (str_or (extract_agente_code a) (extract_agente_code (upper (combined_text ec))) \<noteq> [])
                    (any_search cotizacion_cuerpo_patterns (upper (combined_text ec))) ai) \<and>
       is_cotizacion c =
         (40 \<le> cotizacion_score (any_search cotizacion_asunto_patterns a)
                    (str_or (extract_agente_code a) (extract_agente_code (upper (combined_text ec))) \<noteq> [])
                    (any_search cotizacion_cuerpo_patterns (upper (combined_text ec))) ai)"
  by (simp add: classify_cotizacion_def Let_def)

lemma classify_renovacion_returns:
  "subject_upper md = Inr a \<Longrightarrow>
   \<exists>c b1 b2 b3 b4 b5. classify_renovacion md ai ec = Inr c \<and>
       confidence c = min 100 (renovacion_score b1 b2 b3 b4 b5 ai)"
  by (simp add: classify_renovacion_def Let_def) blast

lemma classify_endoso_returns:
  "subject_upper md = Inr a \<Longrightarrow>
   \<exists>c b1 b2 b3 b4. classify_endoso md ai ec = Inr c \<and>
       confidence c = min 100 (endoso_score b1 b2 b3 b4 ai)"
  by (simp add: classify_endoso_def Let_def) blast

text \<open>
  C1, as the code has it.  For every message input whose subject is a string or is
  missing, each of the three evaluators returns a result, and its confidence is at most
  100.  Below, the confidence is only bounded by the penalties: the Quote confidence is at
  least -15, the Renewal confidence at least -20, and the Endorsement confidence, which has
  no penalty, at least 0.
\<close>

theorem confidence_bounds:
  assumes "subject md \<noteq> JNull"
  shows "\<exists>c r e. classify_cotizacion md ai ec = Inr c
           \<and> classify_renovacion md ai ec = Inr r
           \<and> classify_endoso md ai ec = Inr e
           \<and> - 15 \<le> confidence c \<and> confidence c \<le> 100
           \<and> - 20 \<le> confidence r \<and> confidence r \<le> 100
           \<and> 0 \<le> confidence e \<and> confidence e \<le> 100"
proof -
  from assms obtain a where a: "subject_upper md = Inr a"
    using subject_upper_total by blast
  obtain c where c: "classify_cotizacion md ai ec = Inr c"
      "- 15 \<le> confidence c \<and> confidence c \<le> 100"
    using classify_cotizacion_returns [OF a, of ai ec] cotizacion_score_bounds by fastforce
  obtain r where r: "classify_renovacion md ai ec = Inr r"
      "- 20 \<le> confidence r \<and> confidence r \<le> 100"
    using classify_renovacion_returns [OF a, of ai ec] renovacion_score_bounds by fastforce
  obtain e where e: "classify_endoso md ai ec = Inr e"
      "0 \<le> confidence e \<and> confidence e \<le> 100"
    using classify_endoso_returns [OF a, of ai ec] endoso_score_bounds by fastforce
  show ?thesis using c r e by blast
qed

theorem confidence_bounds_witness:
  "subject (sample_metadata (JStr ''ENDOSO A'')) \<noteq> JNull \<and>
   (\<exists>c r e. classify_cotizacion (sample_metadata (JStr ''ENDOSO A'')) policy_pdf_only no_content = Inr c
      \<and> classify_renovacion (sample_metadata (JStr ''ENDOSO A'')) policy_pdf_only no_content = Inr r
      \<and> classify_endoso (sample_metadata (JStr ''ENDOSO A'')) policy_pdf_only no_content = Inr e
      \<and> - 15 \<le> confidence c \<and> confidence c \<le> 100
      \<and> - 20 \<le> confidence r \<and> confidence r \<le> 100
      \<and> 0 \<le> confidence e \<and> confidence e \<le> 100)"
proof -
  have h: "subject (sample_metadata (JStr ''ENDOSO A'')) \<noteq> JNull"
    by (simp add: sample_metadata_def)
  show ?thesis
    using h confidence_bounds [OF h, of policy_pdf_only no_content] by simp
qed

text \<open>
  C1 as stated fails: for a message with the subject \<open>ENDOSO A\<close>, no body and one policy
  PDF, \<open>classify_cotizacion\<close> returns the confidence -15, which is not in [0,100].
\<close>

theorem quote_confidence_negative:
  "(case classify_cotizacion (sample_metadata (JStr ''ENDOSO A'')) policy_pdf_only no_content of
      Inl e \<Rightarrow> False
    | Inr c \<Rightarrow> confidence c = - 15 \<and> \<not> (0 \<le> confidence c \<and> confidence c \<le> 100))"
  by code_simp

section \<open>Properties of \<open>classify_email\<close>\<close>

lemma primary_class_eq:
  "primary_class cot ren en =
     (if confidence ren \<le> confidence cot \<and> confidence en \<le> confidence cot
      then (''cotizacion'', confidence cot, status cot)
      else if confidence en \<le> confidence ren
      then (''renovacion'', confidence ren, status ren)
      else (''endoso'', confidence en, status en))"
  by (simp add: primary_class_def sort_by_confidence_def)

lemma classify_email_null:
  "metadata_files st eid = Some md \<Longrightarrow> subject md = JNull \<Longrightarrow>
   classify_email st eid = Raised AttributeError"
  by (simp add: classify_email_def Let_def classify_cotizacion_def subject_upper_null)

lemma classify_email_result:
  assumes md: "metadata_files st eid = Some md"
    and c: "classify_cotizacion md (analyze_attachments st eid) (extract_email_content st eid) = Inr cot"
    and r: "classify_renovacion md (analyze_attachments st eid) (extract_email_content st eid) = Inr ren"
    and e: "classify_endoso md (analyze_attachments st eid) (extract_email_content st eid) = Inr en"
  shows "\<exists>res. classify_email st eid = Result res \<and> email_id res = eid
           \<and> c_cotizacion res = cot \<and> c_renovacion res = ren \<and> c_endoso res = en
           \<and> primary_confidence res = fst (snd (primary_class cot ren en))
           \<and> primary_status res = snd (snd (primary_class cot ren en))
           \<and> primary_type res =
               (if 30 \<le> fst (snd (primary_class cot ren en)) then fst (primary_class cot ren en)
                else ''sin_clasificar'')"
  using md c r e by (simp add: classify_email_def Let_def)



section \<open>The sample messages, classified\<close>

lemma eval_email_1:
  "summary_of (classify_email sample_store ''email_000001'') =
     Some ((''endoso'', 50, ''Endoso incompleto''),
           (- 15, False, [''CA7/CA10: Contiene documentos de p'' @ [CHR 0xF3] @ ''liza vigente'']),
           (0, False),
           (50, True, ''A'', ''Endoso incompleto''))"
  by code_simp

lemma eval_email_2:
  "summary_of (classify_email sample_store ''email_000002'') =
     Some ((''cotizacion'', 30, []),
           (30, False, [''CA1: Palabra clave en asunto'']),
           (0, False),
           (0, False, [], []))"
  by code_simp

lemma eval_email_7:
  "summary_of (classify_email sample_store ''email_000007'') =
     Some ((''sin_clasificar'', 0, []), (0, False, []), (0, False), (0, False, [], []))"
  by code_simp

lemma summary_ofD:
  "summary_of x = Some v \<Longrightarrow> \<exists>r. x = Result r \<and> summary r = v"
  by (cases x) (simp_all add: summary_of_def)


section \<open>The subject \<open>ENDOSO A\<close> with a policy PDF\<close>

text \<open>
  C9 as stated fails.  Message 1 of the sample store has the subject \<open>ENDOSO A\<close>, one
  policy PDF and nothing else.  Its primary type is \<open>endoso\<close> and its subtype \<open>A\<close>, but
  its status is \<open>Endoso incompleto\<close>: neither subject nor body holds a policy number.
\<close>

theorem endoso_a_status_incomplete:
  "metadata_files sample_store ''email_000001'' = Some (sample_metadata (JStr ''ENDOSO A'')) \<and>
   analyze_attachments sample_store ''email_000001'' = policy_pdf_only \<and>
   (case classify_email sample_store ''email_000001'' of
      Result r \<Rightarrow> primary_type r = ''endoso'' \<and> endoso_type (c_endoso r) = ''A''
                 \<and> primary_status r = ''Endoso incompleto''
                 \<and> primary_status r \<noteq> ''Endoso completo''
    | _ \<Rightarrow> False)"
proof -
  have "analyze_attachments sample_store ''email_000001'' = policy_pdf_only"
    by code_simp
  moreover have "metadata_files sample_store ''email_000001'' = Some (sample_metadata (JStr ''ENDOSO A''))"
    by (simp add: sample_store_def)
  ultimately show ?thesis
    using summary_ofD [OF eval_email_1] by (auto simp: summary_def)
qed


lemma subject_endoso_a:
  "any_search endoso_asunto_patterns ''ENDOSO A''"
  "\<not> any_search cotizacion_asunto_patterns ''ENDOSO A''"
  "\<not> any_search renovacion_asunto_patterns ''ENDOSO A''"
  "extract_agente_code ''ENDOSO A'' = []"
  "extract_poliza_number ''ENDOSO A'' = []"
  "any_in [''ENDOSO'', ''MODIFICACION'', ''CORRECCION''] ''ENDOSO A''"
  "\<not> any_in [''RENOVACION'', ''RENOVAR''] ''ENDOSO A''"
  "endoso_subtype ''ENDOSO A'' = ''A''"
  by code_simp+

text \<open>
  C9, as the code has it.  A message whose subject reads \<open>ENDOSO A\<close> in upper case, whose
  body holds no evidence and whose only attachment evidence is a policy PDF is classified
  with the primary type \<open>endoso\<close> (confidence 50), the subtype \<open>A\<close> and the status
  \<open>Endoso incompleto\<close>.
\<close>

theorem endoso_a_with_policy_pdf:
  assumes md: "metadata_files st eid = Some md"
    and subj: "subject md = JStr s" "upper s = ''ENDOSO A''"
    and body: "no_body_evidence (upper (combined_text (extract_email_content st eid)))"
    and att: "only_policy_pdf (analyze_attachments st eid)"
  shows "\<exists>r. classify_email st eid = Result r \<and> primary_type r = ''endoso''
           \<and> primary_confidence r = 50 \<and> is_endoso (c_endoso r)
           \<and> endoso_type (c_endoso r) = ''A'' \<and> primary_status r = ''Endoso incompleto''"
proof -
  let ?ai = "analyze_attachments st eid" and ?ec = "extract_email_content st eid"
  have su: "subject_upper md = Inr ''ENDOSO A''"
    using subj by (simp add: subject_upper_def)
  have "\<exists>c. classify_cotizacion md ?ai ?ec = Inr c \<and> confidence c = - 15"
    using su body att subject_endoso_a
    by (simp add: classify_cotizacion_def Let_def cotizacion_score_def no_body_evidence_def
          only_policy_pdf_def str_or_def)
  then obtain c where c: "classify_cotizacion md ?ai ?ec = Inr c" "confidence c = - 15"
    by blast
  have "\<exists>c. classify_renovacion md ?ai ?ec = Inr c \<and> confidence c = 0"
    using su body att subject_endoso_a
    by (simp add: classify_renovacion_def Let_def renovacion_score_def no_body_evidence_def
          only_policy_pdf_def str_or_def)
  then obtain r where r: "classify_renovacion md ?ai ?ec = Inr r" "confidence r = 0"
    by blast
  have "\<exists>c. classify_endoso md ?ai ?ec = Inr c \<and> confidence c = 50 \<and> is_endoso c
          \<and> endoso_type c = ''A'' \<and> status c = ''Endoso incompleto''"
    using su body att subject_endoso_a
    by (simp add: classify_endoso_def Let_def endoso_score_def endoso_status_def
          no_body_evidence_def only_policy_pdf_def str_or_def)
  then obtain e where e: "classify_endoso md ?ai ?ec = Inr e" "confidence e = 50" "is_endoso e"
      "endoso_type e = ''A''" "status e = ''Endoso incompleto''"
    by blast
  obtain res where res: "classify_email st eid = Result res"
      "c_endoso res = e"
      "primary_confidence res = fst (snd (primary_class c r e))"
      "primary_status res = snd (snd (primary_class c r e))"
      "primary_type res =
         (if 30 \<le> fst (snd (primary_class c r e)) then fst (primary_class c r e)
          else ''sin_clasificar'')"
    using classify_email_result [OF md c(1) r(1) e(1)] by blast
  have "primary_class c r e = (''endoso'', 50, ''Endoso incompleto'')"
    using c(2) r(2) e(2,5) by (simp add: primary_class_eq)
  then show ?thesis using res e by simp
qed

theorem endoso_a_with_policy_pdf_witness:
  "metadata_files sample_store ''email_000001'' = Some (sample_metadata (JStr ''ENDOSO A''))
   \<and> subject (sample_metadata (JStr ''ENDOSO A'')) = JStr ''ENDOSO A''
   \<and> upper ''ENDOSO A'' = ''ENDOSO A''
   \<and> no_body_evidence (upper (combined_text (extract_email_content sample_store ''email_000001'')))
   \<and> only_policy_pdf (analyze_attachments sample_store ''email_000001'')
   \<and> (\<exists>r. classify_email sample_store ''email_000001'' = Result r \<and> primary_type r = ''endoso''
           \<and> primary_confidence r = 50 \<and> is_endoso (c_endoso r)
           \<and> endoso_type (c_endoso r) = ''A'' \<and> primary_status r = ''Endoso incompleto'')"
proof -
  have h1: "metadata_files sample_store ''email_000001'' = Some (sample_metadata (JStr ''ENDOSO A''))"
    by (simp add: sample_store_def)
  have h2: "subject (sample_metadata (JStr ''ENDOSO A'')) = JStr ''ENDOSO A''"
    by (simp add: sample_metadata_def)
  have h3: "upper ''ENDOSO A'' = ''ENDOSO A''"
    by code_simp
  have h4: "no_body_evidence (upper (combined_text (extract_email_content sample_store ''email_000001'')))"
    by code_simp
  have h5: "only_policy_pdf (analyze_attachments sample_store ''email_000001'')"
    by code_simp
  show ?thesis
    using h1 h2 h3 h4 h5 endoso_a_with_policy_pdf [OF h1 h2 h3 h4 h5] by blast
qed

section \<open>A subject keyword alone\<close>

text \<open>
  C6, as the code has it.  A message whose subject matches a Quote keyword pattern and
  that presents no other evidence in any category receives the Quote confidence 30, which
  is below the Quote threshold 40 (\<open>is_cotizacion\<close> is false) but not below the global
  floor 30: its primary type is \<open>cotizacion\<close>.
\<close>

theorem lone_quote_keyword:
  assumes md: "metadata_files st eid = Some md"
    and subj: "subject md = JStr s" "only_quote_keyword (upper s)"
    and body: "no_body_evidence (upper (combined_text (extract_email_content st eid)))"
    and att: "no_attachment_evidence (analyze_attachments st eid)"
  shows "\<exists>r. classify_email st eid = Result r
           \<and> confidence (c_cotizacion r) = 30 \<and> \<not> is_cotizacion (c_cotizacion r)
           \<and> confidence (c_renovacion r) = 0 \<and> confidence (c_endoso r) = 0
           \<and> primary_type r = ''cotizacion'' \<and> primary_confidence r = 30"
proof -
  let ?ai = "analyze_attachments st eid" and ?ec = "extract_email_content st eid"
  have su: "subject_upper md = Inr (upper s)"
    using subj by (simp add: subject_upper_def)
  have "\<exists>c. classify_cotizacion md ?ai ?ec = Inr c \<and> confidence c = 30 \<and> \<not> is_cotizacion c"
    using su subj(2) body att
    by (simp add: classify_cotizacion_def Let_def cotizacion_score_def no_body_evidence_def
          only_quote_keyword_def no_attachment_evidence_def str_or_def)
  then obtain c where c: "classify_cotizacion md ?ai ?ec = Inr c" "confidence c = 30"
      "\<not> is_cotizacion c"
    by blast
  have "\<exists>c. classify_renovacion md ?ai ?ec = Inr c \<and> confidence c = 0"
    using su subj(2) body att
    by (simp add: classify_renovacion_def Let_def renovacion_score_def no_body_evidence_def
          only_quote_keyword_def no_attachment_evidence_def str_or_def)
  then obtain r where r: "classify_renovacion md ?ai ?ec = Inr r" "confidence r = 0"
    by blast
  have "\<exists>c. classify_endoso md ?ai ?ec = Inr c \<and> confidence c = 0"
    using su subj(2) body att
    by (simp add: classify_endoso_def Let_def endoso_score_def no_body_evidence_def
          only_quote_keyword_def no_attachment_evidence_def str_or_def)
  then obtain e where e: "classify_endoso md ?ai ?ec = Inr e" "confidence e = 0"
    by blast
  obtain res where res: "classify_email st eid = Result res"
      "c_cotizacion res = c" "c_renovacion res = r" "c_endoso res = e"
      "primary_confidence res = fst (snd (primary_class c r e))"
      "primary_type res =
         (if 30 \<le> fst (snd (primary_class c r e)) then fst (primary_class c r e)
          else ''sin_clasificar'')"
    using classify_email_result [OF md c(1) r(1) e(1)] by blast
  have "primary_class c r e = (''cotizacion'', 30, status c)"
    using c(2) r(2) e(2) by (simp add: primary_class_eq)
  then show ?thesis using res c r e by simp
qed

theorem lone_quote_keyword_witness:
  "metadata_files sample_store ''email_000002'' = Some (sample_metadata (JStr ''COTIZACION''))
   \<and> subject (sample_metadata (JStr ''COTIZACION'')) = JStr ''COTIZACION''
   \<and> only_quote_keyword (upper ''COTIZACION'')
   \<and> no_body_evidence (upper (combined_text (extract_email_content sample_store ''email_000002'')))
   \<and> no_attachment_evidence (analyze_attachments sample_store ''email_000002'')
   \<and> (\<exists>r. classify_email sample_store ''email_000002'' = Result r
           \<and> confidence (c_cotizacion r) = 30 \<and> \<not> is_cotizacion (c_cotizacion r)
           \<and> confidence (c_renovacion r) = 0 \<and> confidence (c_endoso r) = 0
           \<and> primary_type r = ''cotizacion'' \<and> primary_confidence r = 30)"
proof -
  have h1: "metadata_files sample_store ''email_000002'' = Some (sample_metadata (JStr ''COTIZACION''))"
    by (simp add: sample_store_def)
  have h2: "subject (sample_metadata (JStr ''COTIZACION'')) = JStr ''COTIZACION''"
    by (simp add: sample_metadata_def)
  have h3: "only_quote_keyword (upper ''COTIZACION'')"
    by code_simp
  have h4: "no_body_evidence (upper (combined_text (extract_email_content sample_store ''email_000002'')))"
    by code_simp
  have h5: "no_attachment_evidence (analyze_attachments sample_store ''email_000002'')"
    by code_simp
  show ?thesis
    using h1 h2 h3 h4 h5 lone_quote_keyword [OF h1 h2 h3 h4 h5] by blast
qed

text \<open>
  C6 as stated fails.  Message 2 of the sample store has the subject \<open>COTIZACION\<close>, which
  matches exactly one Quote pattern, and nothing else; the only criterion met is CA1.  Its
  Quote confidence is 30 and its primary type is \<open>cotizacion\<close>, not \<open>sin_clasificar\<close>.
\<close>

theorem lone_quote_keyword_classified:
  "length (filter (\<lambda>p. re_search p (upper ''COTIZACION'')) cotizacion_asunto_patterns) = 1
   \<and> metadata_files sample_store ''email_000002'' = Some (sample_metadata (JStr ''COTIZACION''))
   \<and> (case classify_email sample_store ''email_000002'' of
        Result r \<Rightarrow> confidence (c_cotizacion r) = 30
                   \<and> criteria_met (c_cotizacion r) = [''CA1: Palabra clave en asunto'']
                   \<and> confidence (c_renovacion r) = 0 \<and> confidence (c_endoso r) = 0
                   \<and> primary_type r = ''cotizacion'' \<and> primary_type r \<noteq> ''sin_clasificar''
      | _ \<Rightarrow> False)"
proof -
  have "length (filter (\<lambda>p. re_search p (upper ''COTIZACION'')) cotizacion_asunto_patterns) = 1"
    by code_simp
  moreover have "metadata_files sample_store ''email_000002'' = Some (sample_metadata (JStr ''COTIZACION''))"
    by (simp add: sample_store_def)
  ultimately show ?thesis
    using summary_ofD [OF eval_email_2] by (auto simp: summary_def)
qed


section \<open>The policy PDF as a contra-indicator of a quote\<close>

text \<open>
  C7, as the code has it.  Take two attachment analyses that agree on the slip and on the
  quote PDFs, one with a policy PDF and one without, and the same metadata and body.  The
  Quote confidence with the policy PDF is never higher; it is strictly lower exactly when
  it is below 100, and it is lower by 15 when the confidence without the policy PDF is
  below 100.
\<close>

theorem policy_pdf_lowers_quote:
  assumes same: "has_slip ai' = has_slip ai" "slip_complete ai' = slip_complete ai"
      "pdf_cotizacion ai' = pdf_cotizacion ai"
    and without: "pdf_poliza ai = []"
    and with_pdf: "pdf_poliza ai' \<noteq> []"
    and subj: "subject md \<noteq> JNull"
  shows "\<exists>c c'. classify_cotizacion md ai ec = Inr c \<and> classify_cotizacion md ai' ec = Inr c'
           \<and> confidence c' \<le> confidence c
           \<and> (confidence c' < confidence c \<longleftrightarrow> confidence c' < 100)
           \<and> (confidence c < 100 \<longrightarrow> confidence c' = confidence c - 15)"
proof -
  from subj obtain a where a: "subject_upper md = Inr a"
    using subject_upper_total by blast
  let ?b1 = "any_search cotizacion_asunto_patterns a"
  let ?b2 = "str_or (extract_agente_code a) (extract_agente_code (upper (combined_text ec))) \<noteq> []"
  let ?b3 = "any_search cotizacion_cuerpo_patterns (upper (combined_text ec))"
  obtain c where c: "classify_cotizacion md ai ec = Inr c"
      "confidence c = min 100 (cotizacion_score ?b1 ?b2 ?b3 ai)"
    using classify_cotizacion_returns [OF a, of ai ec] by blast
  obtain c' where c': "classify_cotizacion md ai' ec = Inr c'"
      "confidence c' = min 100 (cotizacion_score ?b1 ?b2 ?b3 ai')"
    using classify_cotizacion_returns [OF a, of ai' ec] by blast
  have "cotizacion_score ?b1 ?b2 ?b3 ai' = cotizacion_score ?b1 ?b2 ?b3 ai - 15"
    using same without with_pdf by (simp add: cotizacion_score_def)
  then have "confidence c' \<le> confidence c
           \<and> (confidence c' < confidence c \<longleftrightarrow> confidence c' < 100)
           \<and> (confidence c < 100 \<longrightarrow> confidence c' = confidence c - 15)"
    using c(2) c'(2) by (auto simp: min_def)
  then show ?thesis using c(1) c'(1) by blast
qed

theorem policy_pdf_lowers_quote_witness:
  "has_slip policy_pdf_only = has_slip no_attachments
   \<and> slip_complete policy_pdf_only = slip_complete no_attachments
   \<and> pdf_cotizacion policy_pdf_only = pdf_cotizacion no_attachments
   \<and> pdf_poliza no_attachments = [] \<and> pdf_poliza policy_pdf_only \<noteq> []
   \<and> subject (sample_metadata (JStr ''COTIZACION'')) \<noteq> JNull
   \<and> (\<exists>c c'. classify_cotizacion (sample_metadata (JStr ''COTIZACION'')) no_attachments no_content = Inr c
          \<and> classify_cotizacion (sample_metadata (JStr ''COTIZACION'')) policy_pdf_only no_content = Inr c'
          \<and> confidence c' < 100 \<and> confidence c' < confidence c)"
proof -
  have h: "has_slip policy_pdf_only = has_slip no_attachments"
      "slip_complete policy_pdf_only = slip_complete no_attachments"
      "pdf_cotizacion policy_pdf_only = pdf_cotizacion no_attachments"
      "pdf_poliza no_attachments = []" "pdf_poliza policy_pdf_only \<noteq> []"
      "subject (sample_metadata (JStr ''COTIZACION'')) \<noteq> JNull"
    by (simp_all add: policy_pdf_only_def no_attachments_def sample_metadata_def)
  obtain c c' where cc:
      "classify_cotizacion (sample_metadata (JStr ''COTIZACION'')) no_attachments no_content = Inr c"
      "classify_cotizacion (sample_metadata (JStr ''COTIZACION'')) policy_pdf_only no_content = Inr c'"
      "confidence c' \<le> confidence c"
      "confidence c' < confidence c \<longleftrightarrow> confidence c' < 100"
    using policy_pdf_lowers_quote [OF h, of no_content] by blast
  have "(case classify_cotizacion (sample_metadata (JStr ''COTIZACION'')) policy_pdf_only no_content of
           Inr x \<Rightarrow> confidence x = 15 | Inl _ \<Rightarrow> False)"
    by code_simp
  with cc(2) have "confidence c' < 100" by simp
  with cc h show ?thesis by blast
qed

text \<open>
  C7 as stated fails.  The subject \<open>Cot ag 7\<close> has a Quote keyword; with an agent code, a
  body keyword, a complete slip and a quote PDF the score is 125 without the policy PDF and
  110 with it, and both confidences are \<open>min(100, score) = 100\<close>.
\<close>

theorem policy_pdf_same_quote_confidence:
  "any_search cotizacion_asunto_patterns (upper ''Cot ag 7'')
   \<and> pdf_poliza full_quote_analysis = [] \<and> pdf_poliza full_quote_analysis_policy = [''POLIZA.pdf'']
   \<and> (case (classify_cotizacion full_quote full_quote_analysis full_quote_body,
             classify_cotizacion full_quote full_quote_analysis_policy full_quote_body) of
         (Inr c, Inr c') \<Rightarrow> confidence c = 100 \<and> confidence c' = 100 \<and> \<not> confidence c' < confidence c
       | _ \<Rightarrow> False)"
  by code_simp


section \<open>Properties of \<open>classify_all_emails\<close>\<close>

lemma primary_class_name:
  "fst (primary_class cot ren en) \<in> {''cotizacion'', ''renovacion'', ''endoso''}"
  by (simp add: primary_class_eq)

lemma classify_email_type:
  assumes "classify_email st eid = Result r"
  shows "primary_type r \<in> {''cotizacion'', ''renovacion'', ''endoso'', ''sin_clasificar''}"
proof -
  from assms obtain md where "metadata_files st eid = Some md"
    by (cases "metadata_files st eid") (simp_all add: classify_email_def split: if_splits)
  with assms obtain cot ren en where
    "primary_type r = (if 30 \<le> fst (snd (primary_class cot ren en))
                       then fst (primary_class cot ren en) else ''sin_clasificar'')"
    by (auto simp: classify_email_def Let_def split: sum.splits)
  then show ?thesis using primary_class_name [of cot ren en] by auto
qed

lemma counted_step:
  assumes "counted res"
    and "primary_type c \<in> {''cotizacion'', ''renovacion'', ''endoso'', ''sin_clasificar''}"
  shows "\<exists>res'. count_type (res\<lparr> emails := emails res @ [c],
                                 total_emails := total_emails res + 1 \<rparr>) (primary_type c) = Inr res'
               \<and> counted res' \<and> emails res' = emails res @ [c]"
  using assms by (auto simp: count_type_def counted_def count_of_def)

lemma classify_loop_counted:
  "counted res \<Longrightarrow> classify_loop st res ids = Inr res' \<Longrightarrow> counted res'"
proof (induction ids arbitrary: res)
  case Nil
  then show ?case by simp
next
  case (Cons stem rest)
  show ?case
  proof (cases "stem = ''progress''")
    case True
    with Cons show ?thesis by simp
  next
    case False
    show ?thesis
    proof (cases "classify_email st stem")
      case (Raised e)
      with False Cons.prems show ?thesis by simp
    next
      case (Error msg)
      with False Cons show ?thesis by simp
    next
      case (Result c)
      from counted_step [OF Cons.prems(1) classify_email_type [OF Result]]
      obtain r1 where r1:
        "count_type (res\<lparr> emails := emails res @ [c], total_emails := total_emails res + 1 \<rparr>)
           (primary_type c) = Inr r1" "counted r1"
        by blast
      with False Result Cons.prems(2) have "classify_loop st r1 rest = Inr res'"
        by simp
      with Cons.IH r1(2) show ?thesis by blast
    qed
  qed
qed

lemma count_of_sum:
  assumes "\<forall>r \<in> set rs. primary_type r \<in> {''cotizacion'', ''renovacion'', ''endoso'', ''sin_clasificar''}"
  shows "count_of ''cotizacion'' rs + count_of ''renovacion'' rs + count_of ''endoso'' rs
         + count_of ''sin_clasificar'' rs = length rs"
  using assms by (induction rs) (auto simp: count_of_def)

text \<open>
  C10.  In every result set that \<open>classify_all_emails\<close> returns, \<open>total_emails\<close> is the
  length of the list \<open>emails\<close> and the sum of the four counters, and each counter is the
  number of results in the list with that primary type: every classified message is
  counted once, in the category of its primary type.
\<close>

theorem aggregate_counts:
  assumes "classify_all_emails st listing = Result res"
  shows "total_emails res = length (emails res)
       \<and> total_emails res = cotizacion res + renovacion res + endoso res + sin_clasificar res
       \<and> cotizacion res = count_of ''cotizacion'' (emails res)
       \<and> renovacion res = count_of ''renovacion'' (emails res)
       \<and> endoso res = count_of ''endoso'' (emails res)
       \<and> sin_clasificar res = count_of ''sin_clasificar'' (emails res)"
proof -
  from assms have "classify_loop st empty_results listing = Inr res"
    by (auto simp: classify_all_emails_def split: if_splits sum.splits)
  moreover have "counted empty_results"
    by (simp add: counted_def empty_results_def count_of_def)
  ultimately have c: "counted res"
    using classify_loop_counted by blast
  then show ?thesis
    using count_of_sum [of "emails res"] by (simp add: counted_def)
qed


section \<open>The batch over the sample store\<close>

lemma classify_email_missing:
  "metadata_files st eid = None \<Longrightarrow> \<not> unparsable st eid \<Longrightarrow>
   classify_email st eid = Error (''Metadatos no encontrados para '' @ eid)"
  by (simp add: classify_email_def)

lemma sample_results:
  "\<exists>r1 r2 r7.
     classify_email sample_store ''email_000001'' = Result r1 \<and> primary_type r1 = ''endoso'' \<and>
     classify_email sample_store ''email_000002'' = Result r2 \<and> primary_type r2 = ''cotizacion'' \<and>
     classify_email sample_store ''email_000007'' = Result r7 \<and> primary_type r7 = ''sin_clasificar''"
  using summary_ofD [OF eval_email_1] summary_ofD [OF eval_email_2] summary_ofD [OF eval_email_7]
  by (auto simp: summary_def)

lemma sample_missing:
  "metadata_files sample_store ''email_000003'' = None"
  "\<not> unparsable sample_store ''email_000003''"
  by (simp_all add: sample_store_def)

lemma sample_dir: "metadata_dir_exists sample_store"
  by (simp add: sample_store_def)

theorem aggregate_counts_witness:
  "\<exists>res. classify_all_emails sample_store sample_listing = Result res
       \<and> total_emails res = 3 \<and> length (emails res) = 3
       \<and> cotizacion res = 1 \<and> renovacion res = 0 \<and> endoso res = 1 \<and> sin_clasificar res = 1
       \<and> total_emails res = cotizacion res + renovacion res + endoso res + sin_clasificar res"
proof -
  obtain r1 r2 r7 where r:
      "classify_email sample_store ''email_000001'' = Result r1" "primary_type r1 = ''endoso''"
      "classify_email sample_store ''email_000002'' = Result r2" "primary_type r2 = ''cotizacion''"
      "classify_email sample_store ''email_000007'' = Result r7" "primary_type r7 = ''sin_clasificar''"
    using sample_results by blast
  have run: "classify_all_emails sample_store sample_listing =
          Result \<lparr> total_emails = 3, cotizacion = 1, renovacion = 0, endoso = 1,
                   sin_clasificar = 1, emails = [r1, r2, r7] \<rparr>"
    using r classify_email_missing [OF sample_missing] sample_dir
    by (simp add: classify_all_emails_def sample_listing_def empty_results_def count_type_def)
  show ?thesis
    using run aggregate_counts [OF run] by simp
qed

section \<open>Messages that cannot be classified\<close>

text \<open>
  An id whose metadata file does not exist gets the error dictionary, and the aggregator
  passes over it: the batch returns the results of the messages of the listing that can
  be classified, those before the id and those after it, in the order of the listing.
\<close>

lemma classify_loop_skip:
  assumes "metadata_files st eid = None" and "\<not> unparsable st eid"
  shows "classify_loop st res (before @ eid # after) = classify_loop st res (before @ after)"
proof (induction before arbitrary: res)
  case Nil
  show ?case using classify_email_missing [OF assms] by simp
next
  case (Cons stem rest)
  show ?case
    by (simp add: Cons.IH split: reply.splits sum.splits)
qed

lemma missing_metadata_skipped:
  assumes "metadata_files st eid = None" and "\<not> unparsable st eid"
  shows "classify_email st eid = Error (''Metadatos no encontrados para '' @ eid)
       \<and> classify_all_emails st (before @ eid # after) = classify_all_emails st (before @ after)"
  using classify_email_missing [OF assms] classify_loop_skip [OF assms]
  by (simp add: classify_all_emails_def)

lemma count_type_emails: "count_type res t = Inr res' \<Longrightarrow> emails res' = emails res"
  by (auto simp: count_type_def split: if_splits)

lemma classify_loop_emails:
  "classify_loop st res ids = Inr res' \<Longrightarrow> emails res' = emails res @ classified st ids"
proof (induction ids arbitrary: res)
  case Nil
  then show ?case by (simp add: classified_def)
next
  case (Cons stem rest)
  show ?case
  proof (cases "stem = ''progress''")
    case True
    with Cons show ?thesis by (simp add: classified_def)
  next
    case False
    show ?thesis
    proof (cases "classify_email st stem")
      case (Raised e)
      with False Cons.prems show ?thesis by simp
    next
      case (Error msg)
      with False Cons show ?thesis by (simp add: classified_def)
    next
      case (Result c)
      with False Cons.prems obtain r1 where r1:
        "count_type (res\<lparr> emails := emails res @ [c], total_emails := total_emails res + 1 \<rparr>)
           (primary_type c) = Inr r1" "classify_loop st r1 rest = Inr res'"
        by (auto split: sum.splits)
      from count_type_emails [OF r1(1)] have "emails r1 = emails res @ [c]"
        by simp
      with Cons.IH [OF r1(2)] False Result show ?thesis
        by (simp add: classified_def)
    qed
  qed
qed

lemma batch_emails:
  "classify_all_emails st listing = Result res \<Longrightarrow> emails res = classified st listing"
  using classify_loop_emails [of st empty_results listing res]
  by (auto simp: classify_all_emails_def empty_results_def split: if_splits sum.splits)

text \<open>A metadata record whose subject is \<open>null\<close> makes \<open>classify_email\<close> raise, and a
  batch whose listing holds its id returns no result set, whatever else it lists.\<close>

lemma null_subject_no_result:
  assumes "metadata_files st eid = Some md" and "subject md = JNull" and "eid \<noteq> ''progress''"
    and "eid \<in> set listing"
  shows "classify_loop st res listing \<noteq> Inr res'"
  using assms(4)
proof (induction listing arbitrary: res)
  case Nil
  then show ?case by simp
next
  case (Cons stem rest)
  show ?case
  proof (cases "stem = eid")
    case True
    then show ?thesis
      using classify_email_null [OF assms(1,2)] assms(3) by simp
  next
    case False
    with Cons.prems have "eid \<in> set rest" by simp
    from Cons.IH [OF this] show ?thesis
      by (simp split: reply.splits sum.splits)
  qed
qed

text \<open>A metadata file that cannot be parsed makes \<open>classify_email\<close> raise as well.\<close>

lemma classify_email_unparsable:
  "metadata_files st eid = None \<Longrightarrow> unparsable st eid \<Longrightarrow>
   classify_email st eid = Raised JSONDecodeError"
  by (simp add: classify_email_def)

text \<open>The record of a message without subject, as the extractor writes it, has the
  subject \<open>null\<close>.\<close>

lemma extractor_writes_null_subject:
  "fs (process_message flat_disk subjectless_message ''Inbox'' (new_extractor Map.empty))
      ''metadata/email_000001.json''
     = Some (MetaFile \<lparr> md_id = ''email_000001'', folder = ''Inbox'', subject = JNull,
                         eml_file = Some ''emails/email_000001.eml'', attachments = [],
                         plain_text_length = 1, html_content_length = 0 \<rparr>)"
  by code_simp

text \<open>
  C8 at a metadata record whose subject is \<open>null\<close>.  The sample store holds the records
  of the messages 1, 2, 6 and 7; the subject of message 6 is \<open>null\<close>.
  \<open>metadata.get('subject', '')\<close> gives \<open>None\<close> for it, \<open>None.upper()\<close> raises
  \<open>AttributeError\<close> in the first evaluator and no handler catches it: \<open>classify_email\<close>
  raises, and the batch over the four records raises with it and returns no result set,
  while the batch over the records 1, 2 and 7 alone classifies the three of them.
\<close>

theorem null_subject_aborts_batch:
  "metadata_files sample_store ''email_000006'' = Some (sample_metadata JNull)
   \<and> classify_email sample_store ''email_000006'' = Raised AttributeError
   \<and> classify_all_emails sample_store
        [''email_000001'', ''email_000006'', ''email_000002'', ''email_000007'']
       = Raised AttributeError
   \<and> (\<exists>res. classify_all_emails sample_store [''email_000001'', ''email_000002'', ''email_000007'']
              = Result res
            \<and> map email_id (emails res) = [''email_000001'', ''email_000002'', ''email_000007''])"
proof -
  have m6: "metadata_files sample_store ''email_000006'' = Some (sample_metadata JNull)"
    by (simp add: sample_store_def)
  have c6: "classify_email sample_store ''email_000006'' = Raised AttributeError"
    by (rule classify_email_null [OF m6]) (simp add: sample_metadata_def)
  obtain r1 r2 r7 where r:
      "classify_email sample_store ''email_000001'' = Result r1" "primary_type r1 = ''endoso''"
      "classify_email sample_store ''email_000002'' = Result r2" "primary_type r2 = ''cotizacion''"
      "classify_email sample_store ''email_000007'' = Result r7" "primary_type r7 = ''sin_clasificar''"
    using sample_results by blast
  have ids: "email_id r1 = ''email_000001''" "email_id r2 = ''email_000002''"
    "email_id r7 = ''email_000007''"
    using r(1,3,5) by (auto simp: classify_email_def Let_def split: option.splits sum.splits if_splits)
  have aborted: "classify_all_emails sample_store
                   [''email_000001'', ''email_000006'', ''email_000002'', ''email_000007'']
                   = Raised AttributeError"
    using r c6 sample_dir
    by (simp add: classify_all_emails_def empty_results_def count_type_def)
  have run: "classify_all_emails sample_store [''email_000001'', ''email_000002'', ''email_000007''] =
          Result \<lparr> total_emails = 3, cotizacion = 1, renovacion = 0, endoso = 1,
                   sin_clasificar = 1, emails = [r1, r2, r7] \<rparr>"
    using r sample_dir
    by (simp add: classify_all_emails_def empty_results_def count_type_def)
  show ?thesis
    using m6 c6 aborted run ids by simp
qed

section \<open>Properties of \<open>extract_attachments\<close>\<close>

lemma listed_Nil [simp]: "listed [] = []"
  by (simp add: listed_def)

lemma listed_Cons [simp]:
  "listed ((l, d, e) # ws) = (case e of None \<Rightarrow> [] | Some a \<Rightarrow> [a]) @ listed ws"
  by (simp add: listed_def)

lemma last_written_Nil [simp]: "last_written [] l = None"
  by (simp add: last_written_def)

lemma last_written_Cons [simp]:
  "last_written ((l, d, e) # ws) l' =
     (case last_written ws l' of
        Some d' \<Rightarrow> Some d'
      | None \<Rightarrow> if l' = l then Some d else None)"
  by (simp add: last_written_def map_add_def split: option.splits)








text \<open>Names that differ may give the same path: the attachments named \<open>a.pdf\<close>,
  \<open>./a.pdf\<close> and \<open>.//a.pdf\<close> are listed under their names with one path, and the file
  holds the bytes of the third.  An attachment with an absolute name is written outside
  of the output directory and is not listed.\<close>

lemma dot_names_one_file:
  "map filename (snd (extract_attachments flat_disk dot_message ''email_000001'' Map.empty))
     = [''a.pdf'', ''./a.pdf'', ''.//a.pdf'']
   \<and> map path (snd (extract_attachments flat_disk dot_message ''email_000001'' Map.empty))
     = [''attachments/email_000001/a.pdf'', ''attachments/email_000001/a.pdf'',
        ''attachments/email_000001/a.pdf'']
   \<and> fst (extract_attachments flat_disk dot_message ''email_000001'' Map.empty)
        ''attachments/email_000001/a.pdf'' = Some (Bytes ''three'')"
  by code_simp

lemma absolute_name_not_listed:
  "snd (extract_attachments flat_disk absolute_message ''email_000001'' Map.empty) = []
   \<and> fst (extract_attachments flat_disk absolute_message ''email_000001'' Map.empty) ''/tmp/a.pdf''
       = Some (Bytes ''one'')"
  by code_simp

section \<open>Checkpoints of the progress record\<close>

text \<open>The progress record is on disk after a run that completes, after the archive
  could not be opened, and after every message whose count is a multiple of ten and that
  was extracted in this run.\<close>

lemma save_progress_saves:
  "save_progress env s = (Done, s') \<Longrightarrow>
   fs s' ''progress.json'' = Some (ProgressFile (progress_data s'))
   \<and> processed_emails (progress_data s') = processed_emails (progress_data s)"
  by (auto simp: save_progress_def Let_def split: if_splits)

lemma on_exception_raises: "on_exception env e s = (out, s') \<Longrightarrow> out \<noteq> Done"
  by (auto simp: on_exception_def split: if_splits prod.splits outcome.splits)

lemma extract_done_saves:
  assumes "extract_pst env arch s = (Done, s')"
  shows "fs s' ''progress.json'' = Some (ProgressFile (progress_data s'))"
proof (cases arch)
  case Unreadable
  with assms have "on_exception env OSError s = (Done, s')"
    by (simp add: extract_pst_def)
  from on_exception_raises [OF this] show ?thesis by simp
next
  case (Archive root)
  with assms obtain s1 where "save_progress env s1 = (Done, s')"
    by (auto simp: extract_pst_def split: prod.splits outcome.splits
          dest: on_exception_raises)
  then show ?thesis using save_progress_saves by blast
qed

lemma unreadable_archive_saves:
  "writable env ''progress.json'' \<Longrightarrow>
   \<exists>s'. extract_pst env Unreadable s = (Raise OSError, s')
      \<and> fs s' ''progress.json'' = Some (ProgressFile (progress_data s'))"
  by (simp add: extract_pst_def on_exception_def save_progress_def Let_def)

lemma tenth_message_saves:
  assumes "(processed_count s + 1) mod 10 = 0"
    and "email_id_of (processed_count s + 1) \<notin> set (processed_emails (progress_data s))"
    and "writable env (metadata_path (email_id_of (processed_count s + 1)))"
    and "json_dumps m" and "writable env ''progress.json''"
  shows "fs (process_message env m fn s) ''progress.json''
           = Some (ProgressFile (progress_data (process_message env m fn s)))"
  using assms
  by (simp add: process_message_def Let_def save_progress_def split: prod.splits)

text \<open>
  C4 at an interruption by a signal.  The run over the interrupted archive extracts two
  messages and is then interrupted.  \<open>main\<close> reports that the progress has been saved in
  \<open>progress.json\<close>, but no handler on the way of the \<open>KeyboardInterrupt\<close> has saved it:
  there is no progress file, and the next run starts from an empty progress record.
\<close>

theorem interrupt_leaves_progress_unsaved:
  "fst interrupted_run = InterruptedProgressSaved
   \<and> processed_emails (progress_data (snd interrupted_run)) = [''email_000001'', ''email_000002'']
   \<and> fs (snd interrupted_run) ''progress.json'' = None
   \<and> processed_emails (load_progress (fs (snd interrupted_run))) = []"
  by code_simp

section \<open>Progress and the files of a message\<close>

text \<open>The extractor's own paths of different kinds are different.\<close>

lemma path_kinds [simp]:
  "metadata_path e \<noteq> eml_path e'" "eml_path e' \<noteq> metadata_path e"
  "metadata_path e \<noteq> ''progress.json''" "eml_path e \<noteq> ''progress.json''"
  "''progress.json'' \<noteq> metadata_path e" "''progress.json'' \<noteq> eml_path e"
  by (simp_all add: metadata_path_def eml_path_def)






text \<open>A message whose subject has a line break: the \<open>.eml\<close> file is opened and left cut
  short, the record has no \<open>.eml\<close> file, and the id is in the progress record.\<close>

lemma eml_cut_short:
  "processed_emails (progress_data
      (process_message flat_disk two_line_message ''Inbox'' (new_extractor Map.empty)))
     = [''email_000001'']
   \<and> fs (process_message flat_disk two_line_message ''Inbox'' (new_extractor Map.empty))
        ''emails/email_000001.eml'' = Some Truncated
   \<and> fs (process_message flat_disk two_line_message ''Inbox'' (new_extractor Map.empty))
        ''metadata/email_000001.json''
       = Some (MetaFile \<lparr> md_id = ''email_000001'', folder = ''Inbox'',
                           subject = JStr (''Hola'' @ [CHR 0x0A] @ ''Hola''),
                           eml_file = None, attachments = [], plain_text_length = 1,
                           html_content_length = 0 \<rparr>)"
  by code_simp

text \<open>A folder whose second message cannot be read: the first loop extracts the first
  message and raises, and the alternative loop extracts the first message once more, under
  the next id, and ends at the second; the third message is not extracted.\<close>

lemma bad_message_restarts_folder:
  "fst (extract_pst flat_disk broken_archive (new_extractor Map.empty)) = Done
   \<and> processed_emails (progress_data
        (snd (extract_pst flat_disk broken_archive (new_extractor Map.empty))))
       = [''email_000001'', ''email_000002'']
   \<and> map (\<lambda>p. map_option (\<lambda>x. case x of MetaFile md \<Rightarrow> attachments md | _ \<Rightarrow> [])
                 (fs (snd (extract_pst flat_disk broken_archive (new_extractor Map.empty))) p))
        [''metadata/email_000001.json'', ''metadata/email_000002.json'',
         ''metadata/email_000003.json'']
       = [Some [], Some [], None]"
  by code_simp

text \<open>The files of a message are not safe from the messages after it: the second message
  has an attachment whose path reaches the metadata record of the first, which is
  overwritten with the bytes of the attachment while the id of the first message stays
  in the progress record.\<close>

lemma later_attachment_overwrites_record:
  "processed_emails (progress_data
      (snd (extract_pst climbing_disk climbing_archive (new_extractor Map.empty))))
     = [''email_000001'', ''email_000002'']
   \<and> fs (snd (extract_pst climbing_disk climbing_archive (new_extractor Map.empty)))
        ''metadata/email_000001.json'' = Some (Bytes ''one'')
   \<and> map path (case fs (snd (extract_pst climbing_disk climbing_archive (new_extractor Map.empty)))
                       ''metadata/email_000002.json'' of
                  Some (MetaFile md) \<Rightarrow> attachments md
                | _ \<Rightarrow> [])
       = [''attachments/email_000002/../../metadata/email_000001.json'']"
  by code_simp
end
